theory Spec2Isabelle
  imports Complex_Main "HOL-Library.Word"
begin

section \<open>Audio watermarking: a model of the embedder, the detector and the key registry\<close>

text \<open>
  The development follows \<^verbatim>\<open>backend/watermark/embed.py\<close>, \<^verbatim>\<open>extract.py\<close>,
  \<^verbatim>\<open>keypairs.py\<close> and \<^verbatim>\<open>registry.py\<close>. Calls into numpy, librosa, hashlib,
  base64 and the cryptography package are not code of the repository: the hash, the
  generator, the codecs and the RSA primitives are fields of a record \<open>lib\<close> that every
  function takes, so each theorem holds for any behaviour of these libraries.
\<close>

subsection \<open>Floating-point samples\<close>

text \<open>
  A sample is a finite value, an infinity or NaN. The special values follow IEEE 754
  (\<open>0/0\<close>, \<open>inf - inf\<close> and \<open>0 * inf\<close> are NaN, NaN is contagious and compares false
  with everything). Finite arithmetic is exact: rounding and signed zeros are not
  modelled, and \<open>0.001\<close> is the rational \<open>1/1000\<close>.
\<close>

datatype fl = Fin real | PInf | MInf | NaN

fun isnan :: "fl \<Rightarrow> bool" where
  "isnan NaN = True"
| "isnan _ = False"

fun fneg :: "fl \<Rightarrow> fl" where
  "fneg (Fin a) = Fin (- a)"
| "fneg PInf = MInf"
| "fneg MInf = PInf"
| "fneg NaN = NaN"

fun fabs :: "fl \<Rightarrow> fl" where
  "fabs (Fin a) = Fin \<bar>a\<bar>"
| "fabs PInf = PInf"
| "fabs MInf = PInf"
| "fabs NaN = NaN"

fun fadd :: "fl \<Rightarrow> fl \<Rightarrow> fl" where
  "fadd NaN _ = NaN"
| "fadd _ NaN = NaN"
| "fadd (Fin a) (Fin b) = Fin (a + b)"
| "fadd PInf MInf = NaN"
| "fadd MInf PInf = NaN"
| "fadd PInf _ = PInf"
| "fadd _ PInf = PInf"
| "fadd MInf _ = MInf"
| "fadd _ MInf = MInf"

definition fsub :: "fl \<Rightarrow> fl \<Rightarrow> fl" where
  "fsub x y = fadd x (fneg y)"

text \<open>The sign of a value that is not NaN: \<open>True\<close> for negative.\<close>

fun negative :: "fl \<Rightarrow> bool" where
  "negative (Fin a) = (a < 0)"
| "negative MInf = True"
| "negative _ = False"

definition signed_inf :: "bool \<Rightarrow> fl" where
  "signed_inf neg = (if neg then MInf else PInf)"

fun fmul :: "fl \<Rightarrow> fl \<Rightarrow> fl" where
  "fmul NaN _ = NaN"
| "fmul _ NaN = NaN"
| "fmul (Fin a) (Fin b) = Fin (a * b)"
| "fmul (Fin a) y = (if a = 0 then NaN else signed_inf (negative (Fin a) \<noteq> negative y))"
| "fmul x (Fin b) = (if b = 0 then NaN else signed_inf (negative x \<noteq> negative (Fin b)))"
| "fmul x y = signed_inf (negative x \<noteq> negative y)"

fun fdiv :: "fl \<Rightarrow> fl \<Rightarrow> fl" where
  "fdiv NaN _ = NaN"
| "fdiv _ NaN = NaN"
| "fdiv (Fin a) (Fin b) =
     (if b = 0 then (if a = 0 then NaN else signed_inf (a < 0)) else Fin (a / b))"
| "fdiv (Fin a) _ = Fin 0"
| "fdiv x (Fin b) = signed_inf (negative x \<noteq> (b < 0))"
| "fdiv _ _ = NaN"

fun fsqrt :: "fl \<Rightarrow> fl" where
  "fsqrt (Fin a) = (if a < 0 then NaN else Fin (sqrt a))"
| "fsqrt PInf = PInf"
| "fsqrt MInf = NaN"
| "fsqrt NaN = NaN"

text \<open>\<open>fgt x y\<close> is the comparison \<open>x > y\<close>: false as soon as one side is NaN.\<close>

fun fgt :: "fl \<Rightarrow> fl \<Rightarrow> bool" where
  "fgt NaN _ = False"
| "fgt _ NaN = False"
| "fgt (Fin a) (Fin b) = (a > b)"
| "fgt PInf PInf = False"
| "fgt PInf _ = True"
| "fgt MInf _ = False"
| "fgt _ MInf = True"
| "fgt _ PInf = False"

text \<open>The binary step of \<open>np.max\<close>, which propagates NaN.\<close>

definition fmax :: "fl \<Rightarrow> fl \<Rightarrow> fl" where
  "fmax x y = (if isnan x \<or> isnan y then NaN else if fgt y x then y else x)"

text \<open>\<open>np.clip(c, -1, 1)\<close>: NaN stays NaN.\<close>

definition fclip :: "fl \<Rightarrow> fl" where
  "fclip x =
     (if isnan x then NaN
      else if fgt (Fin (- 1)) x then Fin (- 1)
      else if fgt x (Fin 1) then Fin 1
      else x)"

definition fsum :: "fl list \<Rightarrow> fl" where
  "fsum xs = foldl fadd (Fin 0) xs"

subsection \<open>Exceptions\<close>

datatype exn =
    ValueError
  | TypeError
  | KeyError
  | AttributeError
  | NameError
  | OSError
  | NoBackendError
  | JSONDecodeError
  | BinasciiError
  | InvalidSignature
  | UnsupportedAlgorithm

subsection \<open>Hashing and the 32-bit seed\<close>

type_synonym byte = "8 word"

text \<open>
  \<open>hexdigest()\<close> prints the 256-bit digest as 64 lowercase hexadecimal digits, most
  significant first; \<open>hex_digits n x\<close> is the \<open>n\<close>-digit numeral of \<open>x\<close>.
\<close>

definition hexchar :: "nat \<Rightarrow> char" where
  "hexchar d = ''0123456789abcdef'' ! d"

fun hex_digits :: "nat \<Rightarrow> nat \<Rightarrow> string" where
  "hex_digits 0 x = []"
| "hex_digits (Suc n) x = hex_digits n (x div 16) @ [hexchar (x mod 16)]"

definition hexdigest :: "256 word \<Rightarrow> string" where
  "hexdigest w = hex_digits 64 (unat w)"

text \<open>
  \<open>int(s, 16)\<close> on a string of hexadecimal digits; any other character, and the empty
  string, raise \<open>ValueError\<close>. (Python also accepts a sign, a \<open>0x\<close> prefix, underscores
  and surrounding white space, none of which a digest contains.)
\<close>

definition digit_value :: "char \<Rightarrow> nat option" where
  "digit_value c =
     (let k = (of_char c :: nat) in
      if 48 \<le> k \<and> k \<le> 57 then Some (k - 48)
      else if 97 \<le> k \<and> k \<le> 102 then Some (k - 87)
      else if 65 \<le> k \<and> k \<le> 70 then Some (k - 55)
      else None)"

fun int16_acc :: "nat \<Rightarrow> string \<Rightarrow> exn + nat" where
  "int16_acc acc [] = Inr acc"
| "int16_acc acc (c # cs) =
     (case digit_value c of
        None \<Rightarrow> Inl ValueError
      | Some d \<Rightarrow> int16_acc (16 * acc + d) cs)"

definition int16 :: "string \<Rightarrow> exn + nat" where
  "int16 s = (if s = [] then Inl ValueError else int16_acc 0 s)"

subsection \<open>The external libraries\<close>

text \<open>
  JSON values are what \<open>json.load\<close> returns (numbers are integers here).
  \<open>'g\<close> is the state of the bit generator, \<open>'sk\<close> and \<open>'pk\<close> are parsed private and
  public keys. \<open>next_normal\<close> draws one standard-normal variate; \<open>pss_sign\<close> takes the
  salt that RSA-PSS draws at random as an explicit argument.

  \<open>sf_write L path y\<close> is \<open>sf.write(path, y, 44100)\<close>: the exception it raises (on a
  file extension it knows no format for, say), or the samples that \<open>librosa.load\<close>
  returns for the file it has written; for a WAV file these are the 16-bit PCM encoding
  of \<open>y\<close>, clipped and quantised, not \<open>y\<close> itself. \<open>open_write L path\<close> is
  \<open>open(path, 'w')\<close>: an exception or success.
\<close>

datatype jval =
    JNull
  | JBool bool
  | JNum int
  | JStr string
  | JArr "jval list"
  | JObj "(string \<times> jval) list"

record ('g, 'sk, 'pk) lib =
  encode :: "string \<Rightarrow> byte list"
  sha256 :: "byte list \<Rightarrow> 256 word"
  default_rng :: "nat \<Rightarrow> 'g"
  next_normal :: "'g \<Rightarrow> fl \<times> 'g"
  tobytes :: "fl list \<Rightarrow> byte list"
  sf_write :: "string \<Rightarrow> fl list \<Rightarrow> exn + fl list"
  open_write :: "string \<Rightarrow> exn + unit"
  py_repr :: "jval \<Rightarrow> string"
  load_pem_private_key :: "byte list \<Rightarrow> exn + 'sk"
  pss_sign :: "'sk \<Rightarrow> byte list \<Rightarrow> byte list \<Rightarrow> exn + byte list"
  b64encode :: "byte list \<Rightarrow> string"
  load_pem_public_key :: "byte list \<Rightarrow> exn + 'pk"
  b64decode :: "string \<Rightarrow> exn + byte list"
  pss_verify :: "'pk \<Rightarrow> byte list \<Rightarrow> byte list \<Rightarrow> exn + unit"

text \<open>\<open>rng.standard_normal(n)\<close>: \<open>n\<close> successive draws from the generator.\<close>

fun standard_normal :: "('g \<Rightarrow> fl \<times> 'g) \<Rightarrow> 'g \<Rightarrow> nat \<Rightarrow> fl list" where
  "standard_normal draw g 0 = []"
| "standard_normal draw g (Suc n) =
     (case draw g of (x, g') \<Rightarrow> x # standard_normal draw g' n)"

subsection \<open>Pattern generation, as written at each call site\<close>

text \<open>
  \<^verbatim>\<open>seed = int(hashlib.sha256((id_str + secret).encode()).hexdigest(), 16) % 2**32\<close>
  followed by \<^verbatim>\<open>rng = np.random.default_rng(seed)\<close> and
  \<^verbatim>\<open>pattern = rng.standard_normal(len(y))\<close>; the text is repeated in
  \<open>embed_watermark\<close> (embed.py, lines 29 to 31) and in \<open>detect_watermark\<close>
  (extract.py, lines 28 to 30), and the two copies are modelled separately.
\<close>

definition embed_seed :: "('g, 'sk, 'pk) lib \<Rightarrow> string \<Rightarrow> string \<Rightarrow> exn + nat" where
  "embed_seed L id_str secret =
     (case int16 (hexdigest (sha256 L (encode L (id_str @ secret)))) of
        Inl e \<Rightarrow> Inl e
      | Inr v \<Rightarrow> Inr (v mod 2 ^ 32))"

definition embed_pattern ::
  "('g, 'sk, 'pk) lib \<Rightarrow> string \<Rightarrow> string \<Rightarrow> nat \<Rightarrow> exn + fl list" where
  "embed_pattern L id_str secret n =
     (case embed_seed L id_str secret of
        Inl e \<Rightarrow> Inl e
      | Inr seed \<Rightarrow> Inr (standard_normal (next_normal L) (default_rng L seed) n))"

definition detect_seed :: "('g, 'sk, 'pk) lib \<Rightarrow> string \<Rightarrow> string \<Rightarrow> exn + nat" where
  "detect_seed L id_str secret =
     (case int16 (hexdigest (sha256 L (encode L (id_str @ secret)))) of
        Inl e \<Rightarrow> Inl e
      | Inr v \<Rightarrow> Inr (v mod 2 ^ 32))"

definition detect_pattern ::
  "('g, 'sk, 'pk) lib \<Rightarrow> string \<Rightarrow> string \<Rightarrow> nat \<Rightarrow> exn + fl list" where
  "detect_pattern L id_str secret n =
     (case detect_seed L id_str secret of
        Inl e \<Rightarrow> Inl e
      | Inr seed \<Rightarrow> Inr (standard_normal (next_normal L) (default_rng L seed) n))"

subsection \<open>Files\<close>

text \<open>
  A file holds decoded audio (what \<open>librosa.load(path, sr=44100, mono=True)\<close> returns
  for it), a JSON document (what \<open>json.load\<close> returns for it; an object lists the
  items of the parsed dict, keys distinct), or neither. \<open>json.dump\<close> of a dict of
  strings writes a document that \<open>json.load\<close> reads back as that dict.
\<close>

datatype fdata = Audio "fl list" | Json jval | Raw

type_synonym fs = "string \<Rightarrow> fdata option"

definition librosa_load :: "fs \<Rightarrow> string \<Rightarrow> exn + fl list" where
  "librosa_load files path =
     (case files path of
        None \<Rightarrow> Inl OSError
      | Some (Audio y) \<Rightarrow> Inr y
      | Some _ \<Rightarrow> Inl NoBackendError)"

definition json_load :: "fdata \<Rightarrow> exn + jval" where
  "json_load f = (case f of Json v \<Rightarrow> Inr v | _ \<Rightarrow> Inl JSONDecodeError)"

text \<open>\<open>s.replace(old, new)\<close>: every occurrence, left to right, without overlap.\<close>

function py_replace :: "string \<Rightarrow> string \<Rightarrow> string \<Rightarrow> string" where
  "py_replace old new s =
     (if old = [] then new @ concat (map (\<lambda>c. c # new) s)
      else if take (length old) s = old then new @ py_replace old new (drop (length old) s)
      else (case s of [] \<Rightarrow> [] | c # cs \<Rightarrow> c # py_replace old new cs))"
  by pat_completeness auto
termination
proof (relation "measure (\<lambda>(old, new, s). length s)")
  show "wf (measure (\<lambda>(old, new, s). length s))"
    by simp
next
  fix old new s :: string
  assume "old \<noteq> []" and "take (length old) s = old"
  then have "s \<noteq> []"
    by auto
  with \<open>old \<noteq> []\<close> show "((old, new, drop (length old) s), (old, new, s))
      \<in> measure (\<lambda>(old, new, s). length s)"
    by simp
next
  fix old new s :: string and c cs
  assume "s = c # cs"
  then show "((old, new, cs), (old, new, s)) \<in> measure (\<lambda>(old, new, s). length s)"
    by simp
qed

declare py_replace.simps [simp del]

subsection \<open>Normalisation, mixing and correlation\<close>

text \<open>\<open>np.max\<close> raises \<open>ValueError\<close> on an empty array.\<close>

definition np_max :: "fl list \<Rightarrow> exn + fl" where
  "np_max xs = (case xs of [] \<Rightarrow> Inl ValueError | x # rest \<Rightarrow> Inr (foldl fmax x rest))"

text \<open>\<^verbatim>\<open>y = y / np.max(np.abs(y))\<close>, the same line in all four functions.\<close>

definition normalize :: "fl list \<Rightarrow> exn + fl list" where
  "normalize y =
     (case np_max (map fabs y) of
        Inl e \<Rightarrow> Inl e
      | Inr m \<Rightarrow> Inr (map (\<lambda>v. fdiv v m) y))"

definition alpha :: fl where
  "alpha = Fin (1 / 1000)"

definition threshold :: fl where
  "threshold = Fin (1 / 1000)"

text \<open>\<^verbatim>\<open>y_marked = y + alpha * pattern\<close> on arrays of one length.\<close>

definition mix :: "fl list \<Rightarrow> fl list \<Rightarrow> fl list" where
  "mix y pattern = map2 (\<lambda>v p. fadd v (fmul alpha p)) y pattern"

text \<open>
  \<open>np.corrcoef(y, pattern)[0, 1]\<close>, after numpy: the rows are centred on their means,
  the covariance matrix is the product of the centred rows scaled by \<open>1 / fact\<close> with
  \<open>fact = N - 1\<close> (replaced by \<open>0.0\<close> when it is not positive), each entry is divided
  by the square roots of the two diagonal entries, and the result is clipped to
  \<open>[-1, 1]\<close>.
\<close>

definition mean :: "fl list \<Rightarrow> fl" where
  "mean xs = fdiv (fsum xs) (Fin (real (length xs)))"

definition centered :: "fl list \<Rightarrow> fl list" where
  "centered xs = map (\<lambda>x. fsub x (mean xs)) xs"

definition cov_entry :: "nat \<Rightarrow> fl list \<Rightarrow> fl list \<Rightarrow> fl" where
  "cov_entry n xs ys =
     (let fact = (if n \<le> 1 then Fin 0 else Fin (real (n - 1)))
      in fmul (fsum (map2 fmul (centered xs) (centered ys))) (fdiv (Fin 1) fact))"

definition corrcoef01 :: "fl list \<Rightarrow> fl list \<Rightarrow> fl" where
  "corrcoef01 xs ys =
     (let n = length xs
      in fclip (fdiv (fdiv (cov_entry n xs ys) (fsqrt (cov_entry n xs xs)))
                     (fsqrt (cov_entry n ys ys))))"

subsection \<open>embed.py and extract.py: the secret-based functions\<close>

definition embed_watermark ::
  "('g, 'sk, 'pk) lib \<Rightarrow> fs \<Rightarrow> string \<Rightarrow> string \<Rightarrow> string \<Rightarrow> string \<Rightarrow> exn + fs \<times> string" where
  "embed_watermark L files input_path output_path id_str secret =
     (case librosa_load files input_path of
        Inl e \<Rightarrow> Inl e
      | Inr y0 \<Rightarrow>
     (case normalize y0 of
        Inl e \<Rightarrow> Inl e
      | Inr y \<Rightarrow>
     (case embed_pattern L id_str secret (length y) of
        Inl e \<Rightarrow> Inl e
      | Inr pattern \<Rightarrow>
     (case sf_write L output_path (mix y pattern) of
        Inl e \<Rightarrow> Inl e
      | Inr written \<Rightarrow> Inr (files(output_path \<mapsto> Audio written), output_path)))))"

definition detect_watermark ::
  "('g, 'sk, 'pk) lib \<Rightarrow> fs \<Rightarrow> string \<Rightarrow> string \<Rightarrow> string \<Rightarrow> exn + bool \<times> fl" where
  "detect_watermark L files audio_path id_str secret =
     (case librosa_load files audio_path of
        Inl e \<Rightarrow> Inl e
      | Inr y0 \<Rightarrow>
     (case normalize y0 of
        Inl e \<Rightarrow> Inl e
      | Inr y \<Rightarrow>
     (case detect_pattern L id_str secret (length y) of
        Inl e \<Rightarrow> Inl e
      | Inr pattern \<Rightarrow>
          (let corr0 = corrcoef01 y pattern;
               corr = (if isnan corr0 then Fin 0 else corr0);
               verified = fgt corr threshold
           in Inr (verified, corr)))))"

subsection \<open>keypairs.py\<close>

text \<open>
  An f-string prints a \<open>str\<close> as it is and any other value through the library.
\<close>

definition format_val :: "('g, 'sk, 'pk) lib \<Rightarrow> jval \<Rightarrow> string" where
  "format_val L v = (case v of JStr s \<Rightarrow> s | _ \<Rightarrow> py_repr L v)"

definition sign_watermark ::
  "('g, 'sk, 'pk) lib \<Rightarrow> byte list \<Rightarrow> string \<Rightarrow> string \<Rightarrow> string \<Rightarrow> exn + string" where
  "sign_watermark L salt artist_id watermark_data private_key_pem =
     (case load_pem_private_key L (encode L private_key_pem) of
        Inl e \<Rightarrow> Inl e
      | Inr private_key \<Rightarrow>
          (let message = encode L (artist_id @ '':'' @ watermark_data)
           in case pss_sign L private_key message salt of
                Inl e \<Rightarrow> Inl e
              | Inr signature \<Rightarrow> Inr (b64encode L signature)))"

text \<open>
  The body of the \<open>try\<close> block of \<open>verify_signature\<close>. The values verified come from a
  JSON document, so \<open>watermark_data\<close> and \<open>signature\<close> are JSON values;
  \<open>base64.b64decode\<close> raises \<open>TypeError\<close> on anything but a string.
\<close>

definition verify_signature_try ::
  "('g, 'sk, 'pk) lib \<Rightarrow> string \<Rightarrow> jval \<Rightarrow> jval \<Rightarrow> string \<Rightarrow> exn + bool" where
  "verify_signature_try L artist_id watermark_data signature public_key_pem =
     (case load_pem_public_key L (encode L public_key_pem) of
        Inl e \<Rightarrow> Inl e
      | Inr public_key \<Rightarrow>
     (case (case signature of JStr s \<Rightarrow> b64decode L s | _ \<Rightarrow> Inl TypeError) of
        Inl e \<Rightarrow> Inl e
      | Inr signature_bytes \<Rightarrow>
          (let message = encode L (artist_id @ '':'' @ format_val L watermark_data)
           in case pss_verify L public_key signature_bytes message of
                Inl e \<Rightarrow> Inl e
              | Inr u \<Rightarrow> Inr True)))"

text \<open>
  \<open>try: ... except Exception: return False\<close>. Every constructor of \<open>exn\<close> is a subclass
  of \<open>Exception\<close>, so the handler takes them all.
\<close>

definition verify_signature ::
  "('g, 'sk, 'pk) lib \<Rightarrow> string \<Rightarrow> jval \<Rightarrow> jval \<Rightarrow> string \<Rightarrow> exn + bool" where
  "verify_signature L artist_id watermark_data signature public_key_pem =
     (case verify_signature_try L artist_id watermark_data signature public_key_pem of
        Inl e \<Rightarrow> Inr False
      | Inr b \<Rightarrow> Inr b)"

definition create_watermark_signature ::
  "('g, 'sk, 'pk) lib \<Rightarrow> byte list \<Rightarrow> string \<Rightarrow> string \<Rightarrow> string \<Rightarrow> exn + string" where
  "create_watermark_signature L salt artist_id audio_hash private_key_pem =
     sign_watermark L salt artist_id audio_hash private_key_pem"

definition verify_watermark_signature ::
  "('g, 'sk, 'pk) lib \<Rightarrow> string \<Rightarrow> jval \<Rightarrow> jval \<Rightarrow> string \<Rightarrow> exn + bool" where
  "verify_watermark_signature L artist_id audio_hash signature public_key_pem =
     verify_signature L artist_id audio_hash signature public_key_pem"

subsection \<open>embed.py: the signed embedder\<close>

definition embed_watermark_with_signature ::
  "('g, 'sk, 'pk) lib \<Rightarrow> byte list \<Rightarrow> fs \<Rightarrow> string \<Rightarrow> string \<Rightarrow> string \<Rightarrow> string
     \<Rightarrow> exn + fs \<times> string" where
  "embed_watermark_with_signature L salt files input_path output_path id_str private_key_pem =
     (case librosa_load files input_path of
        Inl e \<Rightarrow> Inl e
      | Inr y0 \<Rightarrow>
     (case normalize y0 of
        Inl e \<Rightarrow> Inl e
      | Inr y \<Rightarrow>
     (let audio_hash = hexdigest (sha256 L (tobytes L y))
      in case create_watermark_signature L salt id_str audio_hash private_key_pem of
        Inl e \<Rightarrow> Inl e
      | Inr signature \<Rightarrow>
     (case int16 (hexdigest (sha256 L (encode L (id_str @ signature)))) of
        Inl e \<Rightarrow> Inl e
      | Inr v \<Rightarrow>
          (let seed = v mod 2 ^ 32;
               pattern = standard_normal (next_normal L) (default_rng L seed) (length y);
               y_marked = mix y pattern
           in case sf_write L output_path y_marked of
                Inl e \<Rightarrow> Inl e
              | Inr written \<Rightarrow>
          (let files1 = files(output_path \<mapsto> Audio written);
               metadata = JObj [(''artist_id'', JStr id_str),
                                (''signature'', JStr signature),
                                (''audio_hash'', JStr audio_hash),
                                (''watermark_type'', JStr ''cryptographic'')];
               metadata_path = py_replace ''.wav'' ''_metadata.json'' output_path
           in case open_write L metadata_path of
                Inl e \<Rightarrow> Inl e
              | Inr u \<Rightarrow> Inr (files1(metadata_path \<mapsto> Json metadata), output_path)))))))"

subsection \<open>extract.py: the signed detector\<close>

text \<open>\<open>metadata.get(key, default)\<close>; only a dict has the method.\<close>

definition jget :: "jval \<Rightarrow> string \<Rightarrow> jval \<Rightarrow> exn + jval" where
  "jget m k d =
     (case m of
        JObj kvs \<Rightarrow> (case map_of kvs k of None \<Rightarrow> Inr d | Some v \<Rightarrow> Inr v)
      | _ \<Rightarrow> Inl AttributeError)"

text \<open>
  Lines 66 to 92 of extract.py: the metadata file is looked for and, when it is there,
  read and checked inside \<open>try ... except Exception\<close>. The result is the local variable
  \<open>metadata\<close> (\<open>None\<close> while it is unbound), \<open>signature_valid\<close> and \<open>signature_score\<close>.
\<close>

definition check_metadata ::
  "('g, 'sk, 'pk) lib \<Rightarrow> fs \<Rightarrow> string \<Rightarrow> string \<Rightarrow> string \<Rightarrow> jval option \<times> bool \<times> fl" where
  "check_metadata L files metadata_path id_str public_key_pem =
     (case files metadata_path of
        None \<Rightarrow> (None, False, Fin 0)
      | Some f \<Rightarrow>
     (case json_load f of
        Inl e \<Rightarrow> (None, False, Fin 0)
      | Inr metadata \<Rightarrow>
     (case jget metadata ''watermark_type'' JNull of
        Inl e \<Rightarrow> (Some metadata, False, Fin 0)
      | Inr t \<Rightarrow>
          if t = JStr ''cryptographic'' then
            (case jget metadata ''audio_hash'' (JStr []) of
               Inl e \<Rightarrow> (Some metadata, False, Fin 0)
             | Inr audio_hash \<Rightarrow>
            (case jget metadata ''signature'' (JStr []) of
               Inl e \<Rightarrow> (Some metadata, False, Fin 0)
             | Inr signature \<Rightarrow>
            (case verify_watermark_signature L id_str audio_hash signature public_key_pem of
               Inl e \<Rightarrow> (Some metadata, False, Fin 0)
             | Inr signature_valid \<Rightarrow>
                 (Some metadata, signature_valid, if signature_valid then Fin 1 else Fin 0))))
          else (Some metadata, False, Fin 0))))"

text \<open>
  Lines 94 to 99: the text whose hash seeds the generator.
  \<^verbatim>\<open>if signature_valid and "signature" in metadata\<close> reads \<open>metadata\<close> only when
  \<open>signature_valid\<close> holds, which is after \<open>metadata.get\<close> has succeeded: then
  \<open>metadata\<close> is a dict. The membership test on any other value is not modelled beyond
  its \<open>TypeError\<close>, and reading an unbound \<open>metadata\<close> is a \<open>NameError\<close>.
\<close>

definition seed_material :: "jval option \<Rightarrow> bool \<Rightarrow> string \<Rightarrow> exn + string" where
  "seed_material metadata signature_valid id_str =
     (if signature_valid then
        (case metadata of
           None \<Rightarrow> Inl NameError
         | Some (JObj kvs) \<Rightarrow>
             (case map_of kvs ''signature'' of
                None \<Rightarrow> Inr (id_str @ ''fallback'')
              | Some (JStr s) \<Rightarrow> Inr (id_str @ s)
              | Some _ \<Rightarrow> Inl TypeError)
         | Some _ \<Rightarrow> Inl TypeError)
      else Inr (id_str @ ''fallback''))"

definition detect_watermark_with_signature ::
  "('g, 'sk, 'pk) lib \<Rightarrow> fs \<Rightarrow> string \<Rightarrow> string \<Rightarrow> string \<Rightarrow> exn + bool \<times> fl \<times> bool" where
  "detect_watermark_with_signature L files audio_path id_str public_key_pem =
     (case librosa_load files audio_path of
        Inl e \<Rightarrow> Inl e
      | Inr y0 \<Rightarrow>
     (case normalize y0 of
        Inl e \<Rightarrow> Inl e
      | Inr y \<Rightarrow>
     (let metadata_path = py_replace ''.wav'' ''_metadata.json'' audio_path
      in case check_metadata L files metadata_path id_str public_key_pem of
        (metadata, signature_valid, signature_score) \<Rightarrow>
     (case seed_material metadata signature_valid id_str of
        Inl e \<Rightarrow> Inl e
      | Inr material \<Rightarrow>
     (case int16 (hexdigest (sha256 L (encode L material))) of
        Inl e \<Rightarrow> Inl e
      | Inr v \<Rightarrow>
          (let seed = v mod 2 ^ 32;
               pattern = standard_normal (next_normal L) (default_rng L seed) (length y);
               corr0 = corrcoef01 y pattern;
               corr = (if isnan corr0 then Fin 0 else corr0);
               correlation_verified = fgt corr threshold;
               verified = (signature_valid \<and> correlation_verified);
               combined_score = fdiv (fadd corr signature_score) (Fin 2)
           in Inr (verified, combined_score, signature_valid)))))))"

subsection \<open>registry.py\<close>

record entry =
  public_key :: string
  artist_name :: string
  contact_info :: string
  description :: string
  registered_at :: string
  last_updated :: string

text \<open>
  The \<open>KeyRegistry\<close> object: its file name, its dict, and what the registry file holds
  on disk (\<open>None\<close> before the first save).
\<close>

record key_registry =
  registry_file :: string
  registry :: "string \<Rightarrow> entry option"
  stored :: "(string \<Rightarrow> entry option) option"

text \<open>\<open>x or d\<close> for an optional string: \<open>None\<close> and the empty string are falsy.\<close>

definition py_or :: "string option \<Rightarrow> string \<Rightarrow> string" where
  "py_or x d = (case x of None \<Rightarrow> d | Some s \<Rightarrow> if s = [] then d else s)"

text \<open>
  \<open>_save_registry\<close> creates the directory and writes the file; \<open>writable\<close> says whether
  the operating system lets it (otherwise \<open>OSError\<close>).
\<close>

definition save_registry :: "bool \<Rightarrow> key_registry \<Rightarrow> exn + key_registry" where
  "save_registry writable st =
     (if writable then Inr (st\<lparr>stored := Some (registry st)\<rparr>) else Inl OSError)"

text \<open>
  \<open>register_artist\<close>; \<open>now1\<close> and \<open>now2\<close> are the two readings of the clock. The result
  is the value returned or the exception raised, with the object afterwards.
\<close>

definition register_artist ::
  "bool \<Rightarrow> string \<Rightarrow> string \<Rightarrow> key_registry \<Rightarrow> string \<Rightarrow> string \<Rightarrow> string option
     \<Rightarrow> string option \<Rightarrow> string option \<Rightarrow> (exn + bool) \<times> key_registry" where
  "register_artist writable now1 now2 st artist_id pubkey name contact descr =
     (if artist_id \<in> dom (registry st) then (Inr False, st)
      else
        (let st1 = st\<lparr>registry := (registry st)(artist_id \<mapsto>
                     \<lparr>public_key = pubkey,
                      artist_name = py_or name artist_id,
                      contact_info = py_or contact [],
                      description = py_or descr [],
                      registered_at = now1,
                      last_updated = now2\<rparr>)\<rparr>
         in case save_registry writable st1 of
              Inl e \<Rightarrow> (Inl e, st1)
            | Inr st2 \<Rightarrow> (Inr True, st2)))"

subsection \<open>Embedding followed by detection\<close>

text \<open>
  The round trip of the specification, \<open>detect(embed(S, identity, secret), identity,
  secret)\<close>: \<open>detect_watermark\<close> reads the file that \<open>embed_watermark\<close> has written.
\<close>

definition embed_then_detect ::
  "('g, 'sk, 'pk) lib \<Rightarrow> fs \<Rightarrow> string \<Rightarrow> string \<Rightarrow> string \<Rightarrow> string \<Rightarrow> exn + bool \<times> fl" where
  "embed_then_detect L files input_path output_path id_str secret =
     (case embed_watermark L files input_path output_path id_str secret of
        Inl e \<Rightarrow> Inl e
      | Inr (files', path) \<Rightarrow> detect_watermark L files' path id_str secret)"

subsection \<open>A small instance of the libraries, for evaluating examples\<close>

text \<open>
  The toy writer takes a path that ends in \<open>.wav\<close> and keeps each sample within the
  16-bit range (NaN becomes full scale); the toy byte code tells \<open>1\<close> and \<open>-1\<close> from
  the other samples.
\<close>

definition toy_pcm :: "fl \<Rightarrow> fl" where
  "toy_pcm v =
     (case v of
        Fin a \<Rightarrow> Fin (max (- 1) (min a (32767 / 32768)))
      | PInf \<Rightarrow> Fin (32767 / 32768)
      | MInf \<Rightarrow> Fin (- 1)
      | NaN \<Rightarrow> Fin (- 1))"

definition toy_byte :: "fl \<Rightarrow> byte" where
  "toy_byte v = (if v = Fin 1 then 1 else if v = Fin (- 1) then 2 else 0)"

definition toy_lib :: "(nat, unit, unit) lib" where
  "toy_lib =
     \<lparr>encode = map (\<lambda>c. word_of_nat (of_char c)),
      sha256 = (\<lambda>bs. word_of_nat (length bs)),
      default_rng = (\<lambda>seed. seed),
      next_normal = (\<lambda>g. (Fin (real g), Suc g)),
      tobytes = (\<lambda>ys. []),
      sf_write = (\<lambda>path ys. if take 4 (rev path) = rev ''.wav'' then Inr (map toy_pcm ys)
                              else Inl TypeError),
      open_write = (\<lambda>path. if path = [] then Inl OSError else Inr ()),
      py_repr = (\<lambda>v. ''?''),
      load_pem_private_key = (\<lambda>bs. if bs = [] then Inl ValueError else Inr ()),
      pss_sign = (\<lambda>sk message salt. Inr message),
      b64encode = map (\<lambda>b. char_of (unat b)),
      load_pem_public_key = (\<lambda>bs. if bs = [] then Inl ValueError else Inr ()),
      b64decode = (\<lambda>s. Inr (map (\<lambda>c. word_of_nat (of_char c)) s)),
      pss_verify = (\<lambda>pk signature message.
                      if signature = message then Inr () else Inl InvalidSignature)\<rparr>"

text \<open>
  A second instance: its hash reads the content it is given, its fingerprint bytes read
  the samples, and the shape of its pattern depends on the seed.
\<close>

definition toy_lib2 :: "(nat, unit, unit) lib" where
  "toy_lib2 =
     toy_lib\<lparr>sha256 := (\<lambda>bs. word_of_nat (sum_list (map unat bs))),
              next_normal := (\<lambda>g. (Fin (real (g mod 3)), Suc g)),
              tobytes := map toy_byte\<rparr>"

text \<open>
  With \<open>toy_lib\<close> the signature of \<open>message\<close> is \<open>message\<close> itself, so \<open>''al:h1''\<close> signs
  the fingerprint \<open>''h1''\<close> for the artist \<open>''al''\<close>. \<open>example_audio\<close> holds a three-sample
  recording and no record; \<open>example_signed\<close> adds its record, \<open>example_forged\<close> a record
  whose signature does not verify. \<open>example_silent\<close> holds two samples of silence,
  \<open>example_single\<close> a recording of one sample, \<open>example_dc\<close> a constant signal and
  \<open>example_quiet\<close> a recording at half scale.
\<close>

definition example_audio :: fs where
  "example_audio = [''a.wav'' \<mapsto> Audio [Fin (- 1), Fin 0, Fin 1]]"

definition example_record :: "string \<Rightarrow> jval" where
  "example_record signature =
     JObj [(''artist_id'', JStr ''al''),
           (''signature'', JStr signature),
           (''audio_hash'', JStr ''h1''),
           (''watermark_type'', JStr ''cryptographic'')]"

definition example_signed :: fs where
  "example_signed = example_audio(''a_metadata.json'' \<mapsto> Json (example_record ''al:h1''))"

definition example_forged :: fs where
  "example_forged = example_audio(''a_metadata.json'' \<mapsto> Json (example_record ''xx:h1''))"

definition example_silent :: fs where
  "example_silent = [''in.wav'' \<mapsto> Audio [Fin 0, Fin 0]]"

definition example_single :: fs where
  "example_single = [''in.wav'' \<mapsto> Audio [Fin (1 / 2)]]"

definition example_dc :: fs where
  "example_dc = [''in.wav'' \<mapsto> Audio [Fin (1 / 2), Fin (1 / 2)]]"

definition example_quiet :: fs where
  "example_quiet = [''in.wav'' \<mapsto> Audio [Fin (- 1 / 2), Fin 0, Fin (1 / 2)]]"

definition example_entry :: entry where
  "example_entry =
     \<lparr>public_key = ''PEM-B'', artist_name = ''Bob'', contact_info = [], description = [],
      registered_at = ''t0'', last_updated = ''t0''\<rparr>"

definition example_registry :: key_registry where
  "example_registry =
     \<lparr>registry_file = ''watermark/registry.json'',
      registry = [''bob'' \<mapsto> example_entry],
      stored = None\<rparr>"

section \<open>Properties\<close>

subsection \<open>Hexadecimal digits\<close>

lemma digit_value_hexchar: "d < 16 \<Longrightarrow> digit_value (hexchar d) = Some d"
proof -
  assume "d < 16"
  then have "d \<in> {0, 1, 2, 3, 4, 5, 6, 7, 8, 9, 10, 11, 12, 13, 14, 15}"
    by simp arith
  then show ?thesis
    by (auto simp: hexchar_def digit_value_def)
qed

lemma int16_acc_append:
  "int16_acc acc (xs @ ys) =
     (case int16_acc acc xs of Inl e \<Rightarrow> Inl e | Inr a \<Rightarrow> int16_acc a ys)"
  by (induction xs arbitrary: acc) (auto split: option.splits)

lemma int16_acc_hex_digits:
  "int16_acc acc (hex_digits n x) = Inr (acc * 16 ^ n + x mod 16 ^ n)"
proof (induction n arbitrary: acc x)
  case 0
  show ?case by simp
next
  case (Suc n)
  have m: "x mod (16 * 16 ^ n) = 16 * (x div 16 mod 16 ^ n) + x mod 16"
    by (rule mod_mult2_eq)
  show ?case
    by (simp add: int16_acc_append Suc.IH digit_value_hexchar m algebra_simps)
qed

lemma hex_digits_nonempty: "0 < n \<Longrightarrow> hex_digits n x \<noteq> []"
  by (cases n) auto

lemma int16_hexdigest: "int16 (hexdigest w) = Inr (unat w)"
proof -
  have "unat w < 2 ^ 256"
    using unsigned_less [of w] by simp
  then have "unat w < 16 ^ 64"
    by simp
  then have "unat w mod 16 ^ 64 = unat w"
    by simp
  then show ?thesis
    by (simp add: int16_def hexdigest_def hex_digits_nonempty int16_acc_hex_digits)
qed

lemma length_standard_normal: "length (standard_normal draw g n) = n"
  by (induction n arbitrary: g) (auto split: prod.splits)

subsection \<open>Special values, normalisation and correlation\<close>

lemma fadd_NaN_right: "fadd x NaN = NaN"
  by (cases x) simp_all

lemma fdiv_NaN_right: "fdiv x NaN = NaN"
  by (cases x) simp_all

lemma foldl_fadd_NaN: "foldl fadd NaN xs = NaN"
  by (induction xs) simp_all

lemma fsum_NaN_Cons: "fsum (NaN # xs) = NaN"
  by (simp add: fsum_def foldl_fadd_NaN fadd_NaN_right)

lemma length_normalize: "normalize y0 = Inr y \<Longrightarrow> length y = length y0"
  by (auto simp: normalize_def split: sum.splits)

lemma normalize_nonempty: "y0 \<noteq> [] \<Longrightarrow> \<exists>y. normalize y0 = Inr y"
  by (cases y0) (auto simp: normalize_def np_max_def)

lemma normalize_empty: "normalize [] = Inl ValueError"
  by (simp add: normalize_def np_max_def)

lemma embed_seed_eq: "embed_seed L i k = Inr (unat (sha256 L (encode L (i @ k))) mod 2 ^ 32)"
  by (simp add: embed_seed_def int16_hexdigest)

lemma detect_seed_eq: "detect_seed L i k = Inr (unat (sha256 L (encode L (i @ k))) mod 2 ^ 32)"
  by (simp add: detect_seed_def int16_hexdigest)

lemma foldl_fmax_zero: "foldl fmax (Fin 0) (replicate n (Fin 0)) = Fin 0"
  by (induction n) (simp_all add: fmax_def)

lemma normalize_silent:
  "normalize (replicate (Suc n) (Fin 0)) = Inr (replicate (Suc n) NaN)"
  by (simp add: normalize_def np_max_def foldl_fmax_zero)

lemma mix_NaN: "length ps = m \<Longrightarrow> mix (replicate m NaN) ps = replicate m NaN"
  by (induction ps arbitrary: m) (auto simp: mix_def)

lemma centered_NaN_Cons: "centered (NaN # xs) = NaN # map (\<lambda>x. NaN) xs"
  by (simp add: centered_def mean_def fsum_NaN_Cons fsub_def fadd_NaN_right)

lemma cov_entry_NaN_Cons: "cov_entry m (NaN # xs) (NaN # xs) = NaN"
  by (simp add: cov_entry_def centered_NaN_Cons fsum_NaN_Cons Let_def)

lemma corrcoef01_NaN_Cons: "corrcoef01 (NaN # xs) ps = NaN"
  by (simp add: corrcoef01_def Let_def cov_entry_NaN_Cons fdiv_NaN_right fclip_def)

lemma corrcoef01_NaN: "corrcoef01 (replicate (Suc n) NaN) ps = NaN"
  by (simp add: corrcoef01_NaN_Cons)

lemma corrcoef01_single: "corrcoef01 [w] [p] = NaN"
proof -
  have "fsub w (mean [w]) = Fin 0 \<or> fsub w (mean [w]) = NaN"
    by (cases w) (simp_all add: mean_def fsum_def fsub_def signed_inf_def)
  then have "cov_entry 1 [w] [w] = NaN"
    by (auto simp: cov_entry_def centered_def fsum_def signed_inf_def)
  then show ?thesis
    by (simp add: corrcoef01_def fdiv_NaN_right fclip_def)
qed

subsection \<open>The secret-based functions, with the seed evaluated\<close>

lemma embed_pattern_eq:
  "embed_pattern L i k n =
     Inr (standard_normal (next_normal L)
            (default_rng L (unat (sha256 L (encode L (i @ k))) mod 2 ^ 32)) n)"
  by (simp add: embed_pattern_def embed_seed_eq)

lemma detect_pattern_eq:
  "detect_pattern L i k n =
     Inr (standard_normal (next_normal L)
            (default_rng L (unat (sha256 L (encode L (i @ k))) mod 2 ^ 32)) n)"
  by (simp add: detect_pattern_def detect_seed_eq)

lemma detect_watermark_eq:
  assumes "librosa_load files audio_path = Inr y0" and "normalize y0 = Inr y"
  shows "detect_watermark L files audio_path i k =
     (let corr0 = corrcoef01 y (standard_normal (next_normal L)
            (default_rng L (unat (sha256 L (encode L (i @ k))) mod 2 ^ 32)) (length y));
          corr = (if isnan corr0 then Fin 0 else corr0)
      in Inr (fgt corr threshold, corr))"
  by (simp add: detect_watermark_def assms detect_pattern_eq Let_def)

subsection \<open>Signed detection\<close>

lemma verify_watermark_signature_str:
  "verify_watermark_signature L a d s pk = Inr True \<Longrightarrow> \<exists>str. s = JStr str"
  by (auto simp: verify_watermark_signature_def verify_signature_def verify_signature_try_def
      split: sum.splits jval.splits)

lemma check_metadata_score:
  "check_metadata L files mp i pk = (m, sv, sc) \<Longrightarrow> sc = (if sv then Fin 1 else Fin 0)"
  by (auto simp: check_metadata_def split: option.splits sum.splits if_splits)

lemma check_metadata_valid:
  assumes "check_metadata L files mp i pk = (m, True, sc)"
  shows "\<exists>kvs h sg. files mp = Some (Json (JObj kvs)) \<and> m = Some (JObj kvs)
     \<and> map_of kvs ''watermark_type'' = Some (JStr ''cryptographic'')
     \<and> h = (case map_of kvs ''audio_hash'' of None \<Rightarrow> JStr [] | Some v \<Rightarrow> v)
     \<and> sg = (case map_of kvs ''signature'' of None \<Rightarrow> JStr [] | Some v \<Rightarrow> v)
     \<and> verify_watermark_signature L i h sg pk = Inr True"
proof (cases "files mp")
  case None
  with assms show ?thesis by (simp add: check_metadata_def)
next
  case (Some f)
  show ?thesis
  proof (cases f)
    case (Json v)
    show ?thesis
    proof (cases v)
      case (JObj kvs)
      have g: "jget (JObj kvs) k d = Inr (case map_of kvs k of None \<Rightarrow> d | Some v \<Rightarrow> v)" for k d
        by (simp add: jget_def split: option.splits)
      from assms Some Json JObj show ?thesis
        by (simp add: check_metadata_def json_load_def g split: if_splits sum.splits option.splits)
    qed (use assms Some Json in \<open>simp_all add: check_metadata_def json_load_def jget_def\<close>)
  qed (use assms Some in \<open>simp_all add: check_metadata_def json_load_def\<close>)
qed

lemma seed_material_ok:
  assumes "check_metadata L files mp i pk = (m, sv, sc)"
  shows "\<exists>mat. seed_material m sv i = Inr mat"
proof (cases sv)
  case False
  then show ?thesis by (simp add: seed_material_def)
next
  case True
  with assms obtain kvs sg where m: "m = Some (JObj kvs)"
    and sg: "sg = (case map_of kvs ''signature'' of None \<Rightarrow> JStr [] | Some v \<Rightarrow> v)"
    and v: "verify_watermark_signature L i
              (case map_of kvs ''audio_hash'' of None \<Rightarrow> JStr [] | Some v \<Rightarrow> v) sg pk = Inr True"
    using check_metadata_valid [of L files mp i pk m sc] by auto
  from v obtain str where "sg = JStr str"
    using verify_watermark_signature_str by blast
  with sg m True show ?thesis
    by (auto simp: seed_material_def split: option.splits)
qed

lemma seed_material_fallback: "seed_material m False i = Inr (i @ ''fallback'')"
  by (simp add: seed_material_def)

lemma detect_signed_eq:
  assumes "librosa_load files p = Inr y0" and "normalize y0 = Inr y"
    and "check_metadata L files (py_replace ''.wav'' ''_metadata.json'' p) i pk = (m, sv, sc)"
    and "seed_material m sv i = Inr mat"
  shows "detect_watermark_with_signature L files p i pk =
     (let corr0 = corrcoef01 y (standard_normal (next_normal L)
            (default_rng L (unat (sha256 L (encode L mat)) mod 2 ^ 32)) (length y));
          corr = (if isnan corr0 then Fin 0 else corr0)
      in Inr (sv \<and> fgt corr threshold, fdiv (fadd corr sc) (Fin 2), sv))"
  by (simp add: detect_watermark_with_signature_def assms int16_hexdigest Let_def)

subsection \<open>The examples, evaluated\<close>

lemma metadata_path_example:
  "py_replace ''.wav'' ''_metadata.json'' ''a.wav'' = ''a_metadata.json''"
  by (simp add: py_replace.simps)

lemma normalize_example:
  "normalize [Fin (- 1), Fin 0, Fin 1] = Inr [Fin (- 1), Fin 0, Fin 1]"
  by (simp add: normalize_def np_max_def fmax_def)

lemma corrcoef01_example:
  "corrcoef01 [Fin (- 1), Fin 0, Fin 1] [Fin g, Fin (g + 1), Fin (g + 2)] = Fin 1"
  by (simp add: corrcoef01_def cov_entry_def centered_def mean_def fsum_def fsub_def
      fclip_def Let_def signed_inf_def field_simps)

lemma check_metadata_example_audio:
  "check_metadata toy_lib example_audio ''a_metadata.json'' ''al'' ''PEM'' = (None, False, Fin 0)"
  by (simp add: check_metadata_def example_audio_def)

lemma check_metadata_example_forged:
  "check_metadata toy_lib example_forged ''a_metadata.json'' ''al'' ''PEM''
     = (Some (example_record ''xx:h1''), False, Fin 0)"
  by (simp add: check_metadata_def example_forged_def example_audio_def example_record_def
      json_load_def jget_def verify_watermark_signature_def verify_signature_def
      verify_signature_try_def toy_lib_def format_val_def)

lemma librosa_load_example_audio:
  "librosa_load example_audio ''a.wav'' = Inr [Fin (- 1), Fin 0, Fin 1]"
  by (simp add: librosa_load_def example_audio_def)

lemma librosa_load_example_signed:
  "librosa_load example_signed ''a.wav'' = Inr [Fin (- 1), Fin 0, Fin 1]"
  by (simp add: librosa_load_def example_signed_def example_audio_def)

lemma librosa_load_example_forged:
  "librosa_load example_forged ''a.wav'' = Inr [Fin (- 1), Fin 0, Fin 1]"
  by (simp add: librosa_load_def example_forged_def example_audio_def)

lemma corrcoef01_example_10:
  "corrcoef01 [Fin (- 1), Fin 0, Fin 1] [Fin 10, Fin 11, Fin 12] = Fin 1"
  using corrcoef01_example [of 10] by simp

lemma toy_pattern_fallback:
  "standard_normal (next_normal toy_lib)
     (default_rng toy_lib (unat (sha256 toy_lib (encode toy_lib (''al'' @ ''fallback''))) mod 2 ^ 32))
     (length [Fin (- 1), Fin 0, Fin 1])
   = [Fin 10, Fin 11, Fin 12]"
  by (simp add: toy_lib_def)

lemma detect_example_audio:
  "detect_watermark_with_signature toy_lib example_audio ''a.wav'' ''al'' ''PEM''
     = Inr (False, Fin (1 / 2), False)"
proof -
  have c: "check_metadata toy_lib example_audio (py_replace ''.wav'' ''_metadata.json'' ''a.wav'')
      ''al'' ''PEM'' = (None, False, Fin 0)"
    by (simp only: metadata_path_example check_metadata_example_audio)
  show ?thesis
    unfolding detect_signed_eq [OF librosa_load_example_audio normalize_example c
        seed_material_fallback] toy_pattern_fallback corrcoef01_example_10
    by (simp add: threshold_def)
qed

lemma detect_example_forged:
  "detect_watermark_with_signature toy_lib example_forged ''a.wav'' ''al'' ''PEM''
     = Inr (False, Fin (1 / 2), False)"
proof -
  have c: "check_metadata toy_lib example_forged (py_replace ''.wav'' ''_metadata.json'' ''a.wav'')
      ''al'' ''PEM'' = (Some (example_record ''xx:h1''), False, Fin 0)"
    by (simp only: metadata_path_example check_metadata_example_forged)
  show ?thesis
    unfolding detect_signed_eq [OF librosa_load_example_forged normalize_example c
        seed_material_fallback] toy_pattern_fallback corrcoef01_example_10
    by (simp add: threshold_def)
qed

lemma check_metadata_frame:
  "mp \<noteq> p \<Longrightarrow> check_metadata L (files(p \<mapsto> f)) mp i pk = check_metadata L files mp i pk"
  by (simp add: check_metadata_def)

lemma check_metadata_record:
  assumes "files mp = Some (Json (JObj kvs))"
    and "map_of kvs ''watermark_type'' = Some (JStr ''cryptographic'')"
    and "map_of kvs ''audio_hash'' = Some h"
    and "map_of kvs ''signature'' = Some sg"
    and "verify_watermark_signature L i h sg pk = Inr b"
  shows "check_metadata L files mp i pk = (Some (JObj kvs), b, if b then Fin 1 else Fin 0)"
  using assms by (simp add: check_metadata_def json_load_def jget_def)

lemma hex_digits_zero: "hex_digits n 0 = replicate n CHR ''0''"
  by (induction n) (simp_all add: hexchar_def replicate_append_same)

lemma toy_text_roundtrip:
  "map (\<lambda>b. char_of (unat b)) (map (\<lambda>c. word_of_nat (of_char c) :: 8 word) s) = s"
  by (induction s) (simp_all add: unat_of_nat)

subsection \<open>Silence and single samples\<close>

lemma librosa_load_example_silent:
  "librosa_load example_silent ''in.wav'' = Inr (replicate (Suc (Suc 0)) (Fin 0))"
  by (simp add: librosa_load_def example_silent_def)

lemma normalize_single: "normalize [v] = Inr [fdiv v (fabs v)]"
  by (simp add: normalize_def np_max_def)

subsection \<open>Signed detection: verdict, score and fallback\<close>

text \<open>
  C5, as the specification states it: with no provenance record, signed detection would
  report a distinct "no record" outcome. It does not: on \<open>example_audio\<close>, which has no
  record, it runs the fallback correlation and returns the very triple it returns on
  \<open>example_forged\<close>, whose record fails verification.
\<close>

theorem missing_record_counterexample:
  "detect_watermark_with_signature toy_lib example_audio ''a.wav'' ''al'' ''PEM''
     = Inr (False, Fin (1 / 2), False)
   \<and> detect_watermark_with_signature toy_lib example_forged ''a.wav'' ''al'' ''PEM''
     = Inr (False, Fin (1 / 2), False)
   \<and> example_audio (py_replace ''.wav'' ''_metadata.json'' ''a.wav'') = None"
proof -
  have h: "example_audio (py_replace ''.wav'' ''_metadata.json'' ''a.wav'') = None"
    by (simp add: metadata_path_example example_audio_def)
  show ?thesis
    using detect_example_audio detect_example_forged h by blast
qed

text \<open>
  C5, amended: if no provenance record is found at the metadata path, signed detection
  raises nothing and reports no separate outcome; it correlates against the pattern
  seeded by \<open>identity + "fallback"\<close> and returns \<open>verified = false\<close>,
  \<open>signatureValid = false\<close> and half the correlation as the score.
\<close>

theorem missing_record_falls_back:
  assumes "librosa_load files p = Inr y0" and "y0 \<noteq> []"
    and "files (py_replace ''.wav'' ''_metadata.json'' p) = None"
  shows "\<exists>y corr0 corr.
      normalize y0 = Inr y
    \<and> corr0 = corrcoef01 y (standard_normal (next_normal L)
          (default_rng L (unat (sha256 L (encode L (i @ ''fallback''))) mod 2 ^ 32)) (length y))
    \<and> corr = (if isnan corr0 then Fin 0 else corr0)
    \<and> detect_watermark_with_signature L files p i pk =
        Inr (False, fdiv (fadd corr (Fin 0)) (Fin 2), False)"
proof -
  obtain y where y: "normalize y0 = Inr y"
    using normalize_nonempty [OF assms(2)] by blast
  have c: "check_metadata L files (py_replace ''.wav'' ''_metadata.json'' p) i pk
      = (None, False, Fin 0)"
    by (simp add: check_metadata_def assms(3))
  show ?thesis
    using y detect_signed_eq [OF assms(1) y c seed_material_fallback]
    by (simp add: Let_def)
qed

theorem missing_record_falls_back_witness:
  "librosa_load example_audio ''a.wav'' = Inr [Fin (- 1), Fin 0, Fin 1]
   \<and> [Fin (- 1), Fin 0, Fin 1] \<noteq> []
   \<and> example_audio (py_replace ''.wav'' ''_metadata.json'' ''a.wav'') = None
   \<and> (\<exists>corr. detect_watermark_with_signature toy_lib example_audio ''a.wav'' ''al'' ''PEM''
         = Inr (False, fdiv (fadd corr (Fin 0)) (Fin 2), False))"
proof -
  have h2: "[Fin (- 1), Fin 0, Fin 1] \<noteq> []"
    by simp
  have h3: "example_audio (py_replace ''.wav'' ''_metadata.json'' ''a.wav'') = None"
    by (simp add: metadata_path_example example_audio_def)
  show ?thesis
    using missing_record_falls_back [OF librosa_load_example_audio h2 h3, of toy_lib "''al''" "''PEM''"]
      librosa_load_example_audio h3
    by auto
qed

subsection \<open>Signed detection: the signature is checked against the record\<close>

text \<open>
  C6. The signature is verified against the fingerprint stored in the record, never
  against one computed from the candidate signal: when the record at the metadata path
  carries a fingerprint and a signature whose verification under the given key yields
  \<open>b\<close>, signed detection reports \<open>signatureValid = b\<close> whatever samples \<open>y1\<close> (at least
  one) the candidate file holds. With \<open>b = True\<close>: a tampered file next to an untouched
  record still reports a valid signature.
\<close>

theorem signature_checked_against_stored_fingerprint:
  assumes "py_replace ''.wav'' ''_metadata.json'' p \<noteq> p"
    and "files (py_replace ''.wav'' ''_metadata.json'' p) = Some (Json (JObj kvs))"
    and "map_of kvs ''watermark_type'' = Some (JStr ''cryptographic'')"
    and "map_of kvs ''audio_hash'' = Some h"
    and "map_of kvs ''signature'' = Some sg"
    and "verify_watermark_signature L i h sg pk = Inr b"
    and "y1 \<noteq> []"
  shows "\<exists>verified score.
     detect_watermark_with_signature L (files(p \<mapsto> Audio y1)) p i pk = Inr (verified, score, b)"
proof -
  let ?mp = "py_replace ''.wav'' ''_metadata.json'' p"
  let ?files = "files(p \<mapsto> Audio y1)"
  have l: "librosa_load ?files p = Inr y1"
    by (simp add: librosa_load_def)
  obtain y where y: "normalize y1 = Inr y"
    using normalize_nonempty [OF assms(7)] by blast
  have c: "check_metadata L ?files ?mp i pk = (Some (JObj kvs), b, if b then Fin 1 else Fin 0)"
    using check_metadata_record [of files ?mp kvs h sg L i pk b] assms
    by (simp add: check_metadata_frame)
  obtain mat where mat: "seed_material (Some (JObj kvs)) b i = Inr mat"
    using seed_material_ok [OF c] by blast
  show ?thesis
    using detect_signed_eq [OF l y c mat] by (simp add: Let_def)
qed

theorem signature_checked_against_stored_fingerprint_witness:
  "py_replace ''.wav'' ''_metadata.json'' ''a.wav'' \<noteq> ''a.wav''
   \<and> example_signed (py_replace ''.wav'' ''_metadata.json'' ''a.wav'')
       = Some (Json (JObj [(''artist_id'', JStr ''al''), (''signature'', JStr ''al:h1''),
                           (''audio_hash'', JStr ''h1''),
                           (''watermark_type'', JStr ''cryptographic'')]))
   \<and> verify_watermark_signature toy_lib ''al'' (JStr ''h1'') (JStr ''al:h1'') ''PEM'' = Inr True
   \<and> (\<exists>verified score.
        detect_watermark_with_signature toy_lib
          (example_signed(''a.wav'' \<mapsto> Audio [Fin (1 / 3), Fin 1, Fin (- 1 / 7), Fin 0]))
          ''a.wav'' ''al'' ''PEM'' = Inr (verified, score, True))"
proof -
  let ?kvs = "[(''artist_id'', JStr ''al''), (''signature'', JStr ''al:h1''),
               (''audio_hash'', JStr ''h1''), (''watermark_type'', JStr ''cryptographic'')]"
  have h1: "py_replace ''.wav'' ''_metadata.json'' ''a.wav'' \<noteq> ''a.wav''"
    by (simp add: metadata_path_example)
  have h2: "example_signed (py_replace ''.wav'' ''_metadata.json'' ''a.wav'')
      = Some (Json (JObj ?kvs))"
    by (simp add: metadata_path_example example_signed_def example_record_def)
  have h3: "map_of ?kvs ''watermark_type'' = Some (JStr ''cryptographic'')"
    by simp
  have h4: "map_of ?kvs ''audio_hash'' = Some (JStr ''h1'')"
    by simp
  have h5: "map_of ?kvs ''signature'' = Some (JStr ''al:h1'')"
    by simp
  have h6: "verify_watermark_signature toy_lib ''al'' (JStr ''h1'') (JStr ''al:h1'') ''PEM''
      = Inr True"
    by (simp add: verify_watermark_signature_def verify_signature_def verify_signature_try_def
        toy_lib_def format_val_def)
  have h7: "[Fin (1 / 3), Fin 1, Fin (- 1 / 7), Fin 0] \<noteq> []"
    by simp
  show ?thesis
    using signature_checked_against_stored_fingerprint
        [of "''a.wav''" example_signed ?kvs "JStr ''h1''" "JStr ''al:h1''" toy_lib "''al''"
            "''PEM''" True "[Fin (1 / 3), Fin 1, Fin (- 1 / 7), Fin 0]"]
      h1 h2 h3 h4 h5 h6 h7
    by blast
qed

subsection \<open>Signature verification\<close>

text \<open>
  C7. \<open>verify_signature\<close>, and \<open>verify_watermark_signature\<close> which calls it, return a
  boolean for every input and never raise: the result is true exactly when the public key
  parses, the signature is a string that decodes from base64, and the RSA-PSS check
  passes; a malformed key, an undecodable signature and a mismatch all give false.
\<close>

theorem verify_signature_never_raises:
  "verify_signature L a d s pk =
     Inr (\<exists>key str sb.
            load_pem_public_key L (encode L pk) = Inr key
          \<and> s = JStr str
          \<and> b64decode L str = Inr sb
          \<and> pss_verify L key sb (encode L (a @ '':'' @ format_val L d)) = Inr ())
   \<and> verify_watermark_signature L a d s pk = verify_signature L a d s pk
   \<and> (\<exists>b. verify_watermark_signature L a d s pk = Inr b)"
  by (auto simp: verify_signature_def verify_signature_try_def verify_watermark_signature_def
      split: sum.splits jval.splits)

subsection \<open>The key registry\<close>

text \<open>
  C10. Registering never overwrites: when \<open>artist_id\<close> is already in the registry,
  \<open>register_artist\<close> returns false and leaves the object as it was; and it returns true
  only when \<open>artist_id\<close> was absent, in which case the registry is the old one with the
  new entry added (and saved).
\<close>

theorem register_artist_never_overwrites:
  "(registry st a = Some e \<longrightarrow>
      register_artist w n1 n2 st a pk nm c d = (Inr False, st))
   \<and> (fst (register_artist w' n1' n2' st' a' pk' nm' c' d') = Inr True \<longrightarrow>
        registry st' a' = None
      \<and> registry (snd (register_artist w' n1' n2' st' a' pk' nm' c' d')) =
          (registry st')(a' \<mapsto>
             \<lparr>public_key = pk', artist_name = py_or nm' a', contact_info = py_or c' [],
              description = py_or d' [], registered_at = n1', last_updated = n2'\<rparr>)
      \<and> stored (snd (register_artist w' n1' n2' st' a' pk' nm' c' d')) =
          Some (registry (snd (register_artist w' n1' n2' st' a' pk' nm' c' d'))))"
  by (auto simp: register_artist_def save_registry_def Let_def split: if_splits)

theorem register_artist_never_overwrites_witness:
  "registry example_registry ''bob'' = Some example_entry
   \<and> register_artist True ''t1'' ''t2'' example_registry ''bob'' ''PEM-X'' (Some ''Mallory'')
        None None
     = (Inr False, example_registry)
   \<and> fst (register_artist True ''t1'' ''t2'' example_registry
        ''alice'' ''PEM-A'' None (Some ''a@x'') None) = Inr True
   \<and> registry example_registry ''alice'' = None
   \<and> registry (snd (register_artist True ''t1'' ''t2'' example_registry
        ''alice'' ''PEM-A'' None (Some ''a@x'') None))
     = (registry example_registry)(''alice'' \<mapsto>
          \<lparr>public_key = ''PEM-A'', artist_name = ''alice'', contact_info = ''a@x'',
           description = [], registered_at = ''t1'', last_updated = ''t2''\<rparr>)"
proof -
  have h1: "registry example_registry ''bob'' = Some example_entry"
    by (simp add: example_registry_def)
  have h2: "fst (register_artist True ''t1'' ''t2'' example_registry
        ''alice'' ''PEM-A'' None (Some ''a@x'') None) = Inr True"
    by (simp add: register_artist_def save_registry_def example_registry_def)
  show ?thesis
    using h1 h2
      register_artist_never_overwrites [of example_registry "''bob''" example_entry
        True "''t1''" "''t2''" "''PEM-X''" "Some ''Mallory''" None None
        True "''t1''" "''t2''" example_registry "''alice''" "''PEM-A''" None "Some ''a@x''" None]
    by (simp add: py_or_def)
qed

subsection \<open>Pattern generation\<close>

lemma embed_watermark_eq:
  assumes "librosa_load files input_path = Inr y0" and "normalize y0 = Inr y"
  shows "embed_watermark L files input_path output_path i k =
     (case sf_write L output_path (mix y (standard_normal (next_normal L)
              (default_rng L (unat (sha256 L (encode L (i @ k))) mod 2 ^ 32)) (length y))) of
        Inl e \<Rightarrow> Inl e
      | Inr written \<Rightarrow> Inr (files(output_path \<mapsto> Audio written), output_path))"
  by (simp add: embed_watermark_def assms embed_pattern_eq)

lemma toy_sf_write_wav:
  "sf_write toy_lib ''out.wav'' ys = Inr (map toy_pcm ys)"
  by (simp add: toy_lib_def)

lemma normalize_example_quiet:
  "normalize [Fin (- 1 / 2), Fin 0, Fin (1 / 2)] = Inr [Fin (- 1), Fin 0, Fin 1]"
  by (simp add: normalize_def np_max_def fmax_def)

lemma librosa_load_example_quiet:
  "librosa_load example_quiet ''in.wav'' = Inr [Fin (- 1 / 2), Fin 0, Fin (1 / 2)]"
  by (simp add: librosa_load_def example_quiet_def)

lemma toy_pattern_abcde:
  "standard_normal (next_normal toy_lib)
     (default_rng toy_lib (unat (sha256 toy_lib (encode toy_lib (''ab'' @ ''cde''))) mod 2 ^ 32))
     (length [Fin (- 1 / 2), Fin 0, Fin (1 / 2)])
   = [Fin 5, Fin 6, Fin 7]"
  by (simp add: toy_lib_def)

lemma corrcoef01_example_5:
  "corrcoef01 [Fin (- 1), Fin 0, Fin 1] [Fin 5, Fin 6, Fin 7] = Fin 1"
  using corrcoef01_example [of 5] by simp

text \<open>
  C1. Pattern generation is deterministic. The embedder runs with the libraries \<open>L1\<close>
  of its process and the detector with the libraries \<open>L2\<close> of another; when text
  encoding, SHA-256, the seeding of the generator and its draws are the same functions in
  both (the reproducibility these libraries document), the pattern that
  \<open>embed_watermark\<close> mixes into its signal and the pattern that \<open>detect_watermark\<close>
  correlates its signal with are the same sequence, for every identity, key material
  and length. Nothing else enters either pattern.
\<close>

theorem pattern_deterministic:
  assumes "encode L1 = encode L2" and "sha256 L1 = sha256 L2"
    and "default_rng L1 = default_rng L2" and "next_normal L1 = next_normal L2"
    and "librosa_load files1 input_path = Inr y1" and "y1 \<noteq> []"
    and "librosa_load files2 audio_path = Inr y2" and "length y2 = length y1"
  shows "\<exists>pattern n1 n2 corr0 corr.
      normalize y1 = Inr n1
    \<and> normalize y2 = Inr n2
    \<and> length pattern = length y1
    \<and> embed_pattern L1 i k (length y1) = Inr pattern
    \<and> detect_pattern L2 i k (length y2) = Inr pattern
    \<and> embed_watermark L1 files1 input_path output_path i k =
        (case sf_write L1 output_path (mix n1 pattern) of
           Inl e \<Rightarrow> Inl e
         | Inr written \<Rightarrow> Inr (files1(output_path \<mapsto> Audio written), output_path))
    \<and> corr0 = corrcoef01 n2 pattern
    \<and> corr = (if isnan corr0 then Fin 0 else corr0)
    \<and> detect_watermark L2 files2 audio_path i k = Inr (fgt corr threshold, corr)"
proof -
  obtain n1 where n1: "normalize y1 = Inr n1"
    using normalize_nonempty [OF assms(6)] by blast
  have "y2 \<noteq> []"
    using assms(6,8) by auto
  then obtain n2 where n2: "normalize y2 = Inr n2"
    using normalize_nonempty by blast
  have l1: "length n1 = length y1" and l2: "length n2 = length y1"
    using length_normalize [OF n1] length_normalize [OF n2] assms(8) by simp_all
  show ?thesis
    using n1 n2 embed_watermark_eq [OF assms(5) n1, of L1 output_path i k]
      detect_watermark_eq [OF assms(7) n2, of L2 i k]
    by (simp add: embed_pattern_eq detect_pattern_eq length_standard_normal l1 l2 Let_def
        assms(1-4) assms(8))
qed

theorem pattern_deterministic_witness:
  "encode toy_lib = encode (toy_lib\<lparr>py_repr := (\<lambda>v. ''null'')\<rparr>)
   \<and> sha256 toy_lib = sha256 (toy_lib\<lparr>py_repr := (\<lambda>v. ''null'')\<rparr>)
   \<and> default_rng toy_lib = default_rng (toy_lib\<lparr>py_repr := (\<lambda>v. ''null'')\<rparr>)
   \<and> next_normal toy_lib = next_normal (toy_lib\<lparr>py_repr := (\<lambda>v. ''null'')\<rparr>)
   \<and> librosa_load example_quiet ''in.wav'' = Inr [Fin (- 1 / 2), Fin 0, Fin (1 / 2)]
   \<and> librosa_load example_audio ''a.wav'' = Inr [Fin (- 1), Fin 0, Fin 1]
   \<and> embed_pattern toy_lib ''ab'' ''cde'' (length [Fin (- 1 / 2), Fin 0, Fin (1 / 2)])
       = Inr [Fin 5, Fin 6, Fin 7]
   \<and> detect_pattern (toy_lib\<lparr>py_repr := (\<lambda>v. ''null'')\<rparr>) ''ab'' ''cde''
        (length [Fin (- 1), Fin 0, Fin 1])
       = Inr [Fin 5, Fin 6, Fin 7]
   \<and> embed_watermark toy_lib example_quiet ''in.wav'' ''out.wav'' ''ab'' ''cde''
       = Inr (example_quiet(''out.wav'' \<mapsto>
                Audio (map toy_pcm (mix [Fin (- 1), Fin 0, Fin 1] [Fin 5, Fin 6, Fin 7]))),
              ''out.wav'')
   \<and> detect_watermark (toy_lib\<lparr>py_repr := (\<lambda>v. ''null'')\<rparr>) example_audio ''a.wav''
        ''ab'' ''cde''
       = Inr (True, Fin 1)"
proof -
  let ?L2 = "toy_lib\<lparr>py_repr := (\<lambda>v. ''null'')\<rparr>"
  have e: "encode toy_lib = encode ?L2" and s: "sha256 toy_lib = sha256 ?L2"
    and d: "default_rng toy_lib = default_rng ?L2" and n: "next_normal toy_lib = next_normal ?L2"
    by simp_all
  have h6: "[Fin (- 1 / 2), Fin 0, Fin (1 / 2)] \<noteq> []"
    by simp
  have h8: "length [Fin (- 1), Fin 0, Fin 1] = length [Fin (- 1 / 2), Fin 0, Fin (1 / 2)]"
    by simp
  obtain pattern n1 n2 corr0 corr where
    n1: "normalize [Fin (- 1 / 2), Fin 0, Fin (1 / 2)] = Inr n1"
    and n2: "normalize [Fin (- 1), Fin 0, Fin 1] = Inr n2"
    and pe: "embed_pattern toy_lib ''ab'' ''cde'' (length [Fin (- 1 / 2), Fin 0, Fin (1 / 2)])
               = Inr pattern"
    and pd: "detect_pattern ?L2 ''ab'' ''cde'' (length [Fin (- 1), Fin 0, Fin 1]) = Inr pattern"
    and em: "embed_watermark toy_lib example_quiet ''in.wav'' ''out.wav'' ''ab'' ''cde'' =
        (case sf_write toy_lib ''out.wav'' (mix n1 pattern) of
           Inl e \<Rightarrow> Inl e
         | Inr written \<Rightarrow> Inr (example_quiet(''out.wav'' \<mapsto> Audio written), ''out.wav''))"
    and c0: "corr0 = corrcoef01 n2 pattern"
    and cr: "corr = (if isnan corr0 then Fin 0 else corr0)"
    and de: "detect_watermark ?L2 example_audio ''a.wav'' ''ab'' ''cde''
               = Inr (fgt corr threshold, corr)"
    using pattern_deterministic [OF e s d n librosa_load_example_quiet h6
        librosa_load_example_audio h8, of "''ab''" "''cde''" "''out.wav''"]
    by blast
  have n1': "n1 = [Fin (- 1), Fin 0, Fin 1]"
    using n1 normalize_example_quiet by simp
  have n2': "n2 = [Fin (- 1), Fin 0, Fin 1]"
    using n2 normalize_example by simp
  have p: "pattern = [Fin 5, Fin 6, Fin 7]"
    using pe unfolding embed_pattern_eq toy_pattern_abcde by simp
  have "corr0 = Fin 1"
    unfolding c0 n2' p by (rule corrcoef01_example_5)
  then have c: "corr = Fin 1"
    using cr by simp
  show ?thesis
    using e s d n librosa_load_example_quiet librosa_load_example_audio pe pd em de
    unfolding n1' p c toy_sf_write_wav
    by (simp add: threshold_def)
qed

lemma toy_written_quiet:
  "map toy_pcm (mix [Fin (- 1), Fin 0, Fin 1] [Fin 5, Fin 6, Fin 7])
     = [Fin (- 199 / 200), Fin (3 / 500), Fin (32767 / 32768)]"
  by (simp add: mix_def alpha_def toy_pcm_def)

text \<open>
  C4. The pattern generator hashes \<open>identity + keyMaterial\<close> with SHA-256, reads the
  256-bit digest as an unsigned integer, reduces it modulo \<open>2^32\<close> to the seed,
  initialises the generator with the seed and draws as many standard-normal samples as
  the signal has: the pattern is as long as the signal. This is the pattern that
  \<open>embed_watermark\<close> mixes into the normalised signal before it calls the writer, and
  the pattern that \<open>detect_watermark\<close> correlates the normalised signal with.
\<close>

theorem pattern_algorithm:
  assumes "librosa_load files path = Inr y0" and "y0 \<noteq> []"
  shows "\<exists>y seed pattern corr0 corr.
      normalize y0 = Inr y
    \<and> seed = unat (sha256 L (encode L (i @ k))) mod 2 ^ 32
    \<and> seed < 2 ^ 32
    \<and> embed_seed L i k = Inr seed
    \<and> detect_seed L i k = Inr seed
    \<and> pattern = standard_normal (next_normal L) (default_rng L seed) (length y0)
    \<and> length pattern = length y0
    \<and> embed_pattern L i k (length y) = Inr pattern
    \<and> detect_pattern L i k (length y) = Inr pattern
    \<and> embed_watermark L files path output_path i k =
        (case sf_write L output_path (mix y pattern) of
           Inl e \<Rightarrow> Inl e
         | Inr written \<Rightarrow> Inr (files(output_path \<mapsto> Audio written), output_path))
    \<and> corr0 = corrcoef01 y pattern
    \<and> corr = (if isnan corr0 then Fin 0 else corr0)
    \<and> detect_watermark L files path i k = Inr (fgt corr threshold, corr)"
proof -
  obtain y where y: "normalize y0 = Inr y"
    using normalize_nonempty [OF assms(2)] by blast
  have len: "length y = length y0"
    using y by (rule length_normalize)
  show ?thesis
    using y len embed_watermark_eq [OF assms(1) y, of L output_path i k]
      detect_watermark_eq [OF assms(1) y, of L i k]
    by (simp add: embed_seed_eq detect_seed_eq embed_pattern_eq detect_pattern_eq
        length_standard_normal Let_def)
qed

theorem pattern_algorithm_witness:
  "librosa_load example_quiet ''in.wav'' = Inr [Fin (- 1 / 2), Fin 0, Fin (1 / 2)]
   \<and> [Fin (- 1 / 2), Fin 0, Fin (1 / 2)] \<noteq> []
   \<and> normalize [Fin (- 1 / 2), Fin 0, Fin (1 / 2)] = Inr [Fin (- 1), Fin 0, Fin 1]
   \<and> embed_seed toy_lib ''ab'' ''cde'' = Inr 5
   \<and> detect_seed toy_lib ''ab'' ''cde'' = Inr 5
   \<and> embed_pattern toy_lib ''ab'' ''cde'' 3 = Inr [Fin 5, Fin 6, Fin 7]
   \<and> detect_pattern toy_lib ''ab'' ''cde'' 3 = Inr [Fin 5, Fin 6, Fin 7]
   \<and> embed_watermark toy_lib example_quiet ''in.wav'' ''out.wav'' ''ab'' ''cde''
       = Inr (example_quiet(''out.wav'' \<mapsto>
                Audio [Fin (- 199 / 200), Fin (3 / 500), Fin (32767 / 32768)]),
              ''out.wav'')
   \<and> embed_watermark toy_lib example_quiet ''in.wav'' ''out.bin'' ''ab'' ''cde'' = Inl TypeError
   \<and> detect_watermark toy_lib example_quiet ''in.wav'' ''ab'' ''cde'' = Inr (True, Fin 1)"
proof -
  have h2: "[Fin (- 1 / 2), Fin 0, Fin (1 / 2)] \<noteq> []"
    by simp
  have sd: "unat (sha256 toy_lib (encode toy_lib (''ab'' @ ''cde''))) mod 2 ^ 32 = 5"
    by (simp add: toy_lib_def)
  have bin: "sf_write toy_lib ''out.bin'' ys = Inl TypeError" for ys
    by (simp add: toy_lib_def)
  have emb: "embed_watermark toy_lib example_quiet ''in.wav'' out ''ab'' ''cde'' =
        (case sf_write toy_lib out (mix [Fin (- 1), Fin 0, Fin 1] [Fin 5, Fin 6, Fin 7]) of
           Inl e \<Rightarrow> Inl e
         | Inr written \<Rightarrow> Inr (example_quiet(out \<mapsto> Audio written), out))
      \<and> embed_seed toy_lib ''ab'' ''cde'' = Inr 5
      \<and> detect_seed toy_lib ''ab'' ''cde'' = Inr 5
      \<and> embed_pattern toy_lib ''ab'' ''cde'' 3 = Inr [Fin 5, Fin 6, Fin 7]
      \<and> detect_pattern toy_lib ''ab'' ''cde'' 3 = Inr [Fin 5, Fin 6, Fin 7]
      \<and> detect_watermark toy_lib example_quiet ''in.wav'' ''ab'' ''cde'' = Inr (True, Fin 1)"
    for out
  proof -
    obtain y seed pattern corr0 corr where
      y: "normalize [Fin (- 1 / 2), Fin 0, Fin (1 / 2)] = Inr y"
      and seed: "seed = unat (sha256 toy_lib (encode toy_lib (''ab'' @ ''cde''))) mod 2 ^ 32"
      and es: "embed_seed toy_lib ''ab'' ''cde'' = Inr seed"
      and ds: "detect_seed toy_lib ''ab'' ''cde'' = Inr seed"
      and p: "pattern = standard_normal (next_normal toy_lib) (default_rng toy_lib seed)
                (length [Fin (- 1 / 2), Fin 0, Fin (1 / 2)])"
      and ep: "embed_pattern toy_lib ''ab'' ''cde'' (length y) = Inr pattern"
      and dp: "detect_pattern toy_lib ''ab'' ''cde'' (length y) = Inr pattern"
      and em: "embed_watermark toy_lib example_quiet ''in.wav'' out ''ab'' ''cde'' =
          (case sf_write toy_lib out (mix y pattern) of
             Inl e \<Rightarrow> Inl e
           | Inr written \<Rightarrow> Inr (example_quiet(out \<mapsto> Audio written), out))"
      and c0: "corr0 = corrcoef01 y pattern"
      and cr: "corr = (if isnan corr0 then Fin 0 else corr0)"
      and de: "detect_watermark toy_lib example_quiet ''in.wav'' ''ab'' ''cde''
                 = Inr (fgt corr threshold, corr)"
      using pattern_algorithm [OF librosa_load_example_quiet h2, of toy_lib "''ab''" "''cde''" out]
      by blast
    have y': "y = [Fin (- 1), Fin 0, Fin 1]"
      using y normalize_example_quiet by simp
    have seed': "seed = 5"
      using seed sd by simp
    have p': "pattern = [Fin 5, Fin 6, Fin 7]"
      unfolding p seed using toy_pattern_abcde by simp
    have "corr0 = Fin 1"
      unfolding c0 y' p' by (rule corrcoef01_example_5)
    then have c: "corr = Fin 1"
      using cr by simp
    show ?thesis
      using es ds ep dp em de unfolding y' p' c seed'
      by (simp add: threshold_def numeral_3_eq_3)
  qed
  have wav: "embed_watermark toy_lib example_quiet ''in.wav'' ''out.wav'' ''ab'' ''cde''
       = Inr (example_quiet(''out.wav'' \<mapsto>
                Audio [Fin (- 199 / 200), Fin (3 / 500), Fin (32767 / 32768)]),
              ''out.wav'')"
    using emb [of "''out.wav''"] by (simp add: toy_sf_write_wav toy_written_quiet)
  have "embed_watermark toy_lib example_quiet ''in.wav'' ''out.bin'' ''ab'' ''cde'' = Inl TypeError"
    using emb [of "''out.bin''"] by (simp add: bin)
  with wav emb [of "''out.wav''"] show ?thesis
    using librosa_load_example_quiet h2 normalize_example_quiet by simp
qed

subsection \<open>Silence and the round trip\<close>

lemma embed_signed_eq:
  assumes "librosa_load files input_path = Inr y0" and "normalize y0 = Inr y"
  shows "embed_watermark_with_signature L salt files input_path output_path i sk =
     (case create_watermark_signature L salt i (hexdigest (sha256 L (tobytes L y))) sk of
        Inl e \<Rightarrow> Inl e
      | Inr sg \<Rightarrow>
     (case sf_write L output_path (mix y (standard_normal (next_normal L)
              (default_rng L (unat (sha256 L (encode L (i @ sg))) mod 2 ^ 32)) (length y))) of
        Inl e \<Rightarrow> Inl e
      | Inr written \<Rightarrow>
     (case open_write L (py_replace ''.wav'' ''_metadata.json'' output_path) of
        Inl e \<Rightarrow> Inl e
      | Inr u \<Rightarrow>
          Inr ((files(output_path \<mapsto> Audio written))
                 (py_replace ''.wav'' ''_metadata.json'' output_path \<mapsto>
                   Json (JObj [(''artist_id'', JStr i),
                               (''signature'', JStr sg),
                               (''audio_hash'', JStr (hexdigest (sha256 L (tobytes L y)))),
                               (''watermark_type'', JStr ''cryptographic'')])),
               output_path))))"
  by (simp add: embed_watermark_with_signature_def assms int16_hexdigest Let_def
      split: sum.splits)

lemma detect_watermark_single:
  assumes "librosa_load files p = Inr [v]"
  shows "detect_watermark L files p i k = Inr (False, Fin 0)"
proof -
  define pattern where "pattern = standard_normal (next_normal L)
     (default_rng L (unat (sha256 L (encode L (i @ k))) mod 2 ^ 32)) (length [fdiv v (fabs v)])"
  have "length pattern = Suc 0"
    unfolding pattern_def length_standard_normal by simp
  then obtain q where q: "pattern = [q]"
    by (cases pattern) auto
  show ?thesis
    unfolding detect_watermark_eq [OF assms normalize_single] pattern_def [symmetric] q
    by (simp add: corrcoef01_single threshold_def)
qed

lemma embed_then_detect_eq:
  assumes "librosa_load files input_path = Inr y0"
    and "normalize y0 = Inr y"
    and "sf_write L output_path (mix y (standard_normal (next_normal L)
            (default_rng L (unat (sha256 L (encode L (i @ k))) mod 2 ^ 32)) (length y)))
         = Inr written"
  shows "embed_then_detect L files input_path output_path i k =
     detect_watermark L (files(output_path \<mapsto> Audio written)) output_path i k"
  unfolding embed_then_detect_def embed_watermark_eq [OF assms(1,2)] assms(3)
  by simp

text \<open>
  C2, as the specification states it: on a silent signal the normalisation of each of
  the four functions would raise a fatal error and never yield NaN. It does not: on
  \<open>example_silent\<close> the normalised array is NaN throughout, \<open>embed_watermark\<close> returns
  its output path as on any other input, and \<open>detect_watermark\<close> returns an ordinary
  negative verdict.
\<close>

theorem silent_signal_counterexample:
  "example_silent ''in.wav'' = Some (Audio [Fin 0, Fin 0])
   \<and> normalize [Fin 0, Fin 0] = Inr [NaN, NaN]
   \<and> map_sum id snd
        (embed_watermark toy_lib example_silent ''in.wav'' ''out.wav'' ''artist_1'' ''s3cret'')
       = Inr ''out.wav''
   \<and> detect_watermark toy_lib example_silent ''in.wav'' ''artist_1'' ''s3cret'' = Inr (False, Fin 0)"
proof -
  have nz: "normalize (replicate (Suc (Suc 0)) (Fin 0)) = Inr (replicate (Suc (Suc 0)) NaN)"
    by (rule normalize_silent)
  have e: "map_sum id snd
        (embed_watermark toy_lib example_silent ''in.wav'' ''out.wav'' ''artist_1'' ''s3cret'')
       = Inr ''out.wav''"
    unfolding embed_watermark_eq [OF librosa_load_example_silent nz] toy_sf_write_wav
    by simp
  have d: "detect_watermark toy_lib example_silent ''in.wav'' ''artist_1'' ''s3cret''
      = Inr (False, Fin 0)"
    unfolding detect_watermark_eq [OF librosa_load_example_silent nz] corrcoef01_NaN
    by (simp add: threshold_def)
  have f: "example_silent ''in.wav'' = Some (Audio [Fin 0, Fin 0])"
    by (simp add: example_silent_def)
  show ?thesis
    using e d f nz by simp
qed

text \<open>
  C2, amended: on a silent signal (one sample or more, all zero) normalisation raises
  nothing: \<open>0/0\<close> makes every sample NaN. \<open>embed_watermark\<close> hands that NaN-filled
  array to the writer, and so does \<open>embed_watermark_with_signature\<close> once signing has
  succeeded: an exception, if any, is the signer's, the writer's or \<open>open\<close>'s, never
  one of normalisation. \<open>detect_watermark\<close> reads the NaN correlation as \<open>0.0\<close> and
  returns \<open>(False, 0.0)\<close>; \<open>detect_watermark_with_signature\<close> returns
  \<open>verified = False\<close> with the score \<open>0.5\<close> or \<open>0.0\<close> according to the signature.
\<close>

theorem silent_signal_yields_nan:
  assumes "librosa_load files path = Inr (replicate (Suc n) (Fin 0))"
  shows "normalize (replicate (Suc n) (Fin 0)) = Inr (replicate (Suc n) NaN)
   \<and> embed_watermark L files path out i k =
       (case sf_write L out (replicate (Suc n) NaN) of
          Inl e \<Rightarrow> Inl e
        | Inr written \<Rightarrow> Inr (files(out \<mapsto> Audio written), out))
   \<and> detect_watermark L files path i k = Inr (False, Fin 0)
   \<and> embed_watermark_with_signature L salt files path out i sk =
       (case create_watermark_signature L salt i
               (hexdigest (sha256 L (tobytes L (replicate (Suc n) NaN)))) sk of
          Inl e \<Rightarrow> Inl e
        | Inr sg \<Rightarrow>
       (case sf_write L out (replicate (Suc n) NaN) of
          Inl e \<Rightarrow> Inl e
        | Inr written \<Rightarrow>
       (case open_write L (py_replace ''.wav'' ''_metadata.json'' out) of
          Inl e \<Rightarrow> Inl e
        | Inr u \<Rightarrow>
            Inr ((files(out \<mapsto> Audio written))
                   (py_replace ''.wav'' ''_metadata.json'' out \<mapsto>
                     Json (JObj [(''artist_id'', JStr i),
                                 (''signature'', JStr sg),
                                 (''audio_hash'',
                                    JStr (hexdigest (sha256 L (tobytes L (replicate (Suc n) NaN))))),
                                 (''watermark_type'', JStr ''cryptographic'')])),
                 out))))
   \<and> (\<exists>sv. detect_watermark_with_signature L files path i pk =
          Inr (False, (if sv then Fin (1 / 2) else Fin 0), sv))"
proof -
  note nz = normalize_silent [of n]
  have len: "length (replicate (Suc n) NaN) = Suc n"
    by simp
  have mx: "mix (replicate (Suc n) NaN) (standard_normal draw g (Suc n)) = replicate (Suc n) NaN"
    for draw :: "'a \<Rightarrow> fl \<times> 'a" and g
    by (rule mix_NaN [OF length_standard_normal])
  have e: "embed_watermark L files path out i k =
       (case sf_write L out (replicate (Suc n) NaN) of
          Inl e \<Rightarrow> Inl e
        | Inr written \<Rightarrow> Inr (files(out \<mapsto> Audio written), out))"
    unfolding embed_watermark_eq [OF assms nz] len mx ..
  have d: "detect_watermark L files path i k = Inr (False, Fin 0)"
    unfolding detect_watermark_eq [OF assms nz] corrcoef01_NaN
    by (simp add: threshold_def)
  have es: "embed_watermark_with_signature L salt files path out i sk =
       (case create_watermark_signature L salt i
               (hexdigest (sha256 L (tobytes L (replicate (Suc n) NaN)))) sk of
          Inl e \<Rightarrow> Inl e
        | Inr sg \<Rightarrow>
       (case sf_write L out (replicate (Suc n) NaN) of
          Inl e \<Rightarrow> Inl e
        | Inr written \<Rightarrow>
       (case open_write L (py_replace ''.wav'' ''_metadata.json'' out) of
          Inl e \<Rightarrow> Inl e
        | Inr u \<Rightarrow>
            Inr ((files(out \<mapsto> Audio written))
                   (py_replace ''.wav'' ''_metadata.json'' out \<mapsto>
                     Json (JObj [(''artist_id'', JStr i),
                                 (''signature'', JStr sg),
                                 (''audio_hash'',
                                    JStr (hexdigest (sha256 L (tobytes L (replicate (Suc n) NaN))))),
                                 (''watermark_type'', JStr ''cryptographic'')])),
                 out))))"
    unfolding embed_signed_eq [OF assms nz] len mx ..
  obtain m sv sc where c:
    "check_metadata L files (py_replace ''.wav'' ''_metadata.json'' path) i pk = (m, sv, sc)"
    by (cases "check_metadata L files (py_replace ''.wav'' ''_metadata.json'' path) i pk") auto
  obtain mat where mat: "seed_material m sv i = Inr mat"
    using seed_material_ok [OF c] by blast
  have sc: "sc = (if sv then Fin 1 else Fin 0)"
    using c by (rule check_metadata_score)
  have "detect_watermark_with_signature L files path i pk =
          Inr (False, (if sv then Fin (1 / 2) else Fin 0), sv)"
    unfolding detect_signed_eq [OF assms nz c mat] corrcoef01_NaN
    by (simp add: threshold_def sc)
  then have ds: "\<exists>sv. detect_watermark_with_signature L files path i pk =
          Inr (False, (if sv then Fin (1 / 2) else Fin 0), sv)"
    by blast
  show ?thesis
    using nz e d es ds by blast
qed

theorem silent_signal_yields_nan_witness:
  "librosa_load example_silent ''in.wav'' = Inr (replicate (Suc (Suc 0)) (Fin 0))
   \<and> normalize [Fin 0, Fin 0] = Inr [NaN, NaN]
   \<and> embed_watermark toy_lib example_silent ''in.wav'' ''out.wav'' ''artist_1'' ''s3cret'' =
       (case sf_write toy_lib ''out.wav'' [NaN, NaN] of
          Inl e \<Rightarrow> Inl e
        | Inr written \<Rightarrow> Inr (example_silent(''out.wav'' \<mapsto> Audio written), ''out.wav''))
   \<and> detect_watermark toy_lib example_silent ''in.wav'' ''artist_1'' ''s3cret'' = Inr (False, Fin 0)"
  using silent_signal_yields_nan [OF librosa_load_example_silent,
      of toy_lib "''out.wav''" "''artist_1''" "''s3cret''"]
    librosa_load_example_silent
  by simp

text \<open>
  C3, as the specification states it: detection after embedding would be verified for
  every signal that is not silent. A recording of one sample is not silent, yet the
  correlation of a one-sample file is undefined (the covariance divides by
  \<open>N - 1 = 0\<close>), is read as \<open>0.0\<close>, and the verdict is false
  (\<open>detect_watermark_single\<close>, for any libraries).
\<close>

theorem roundtrip_counterexample:
  "example_single ''in.wav'' = Some (Audio [Fin (1 / 2)])
   \<and> embed_then_detect toy_lib example_single ''in.wav'' ''out.wav'' ''artist_1'' ''s3cret''
       = Inr (False, Fin 0)"
proof -
  have l: "librosa_load example_single ''in.wav'' = Inr [Fin (1 / 2)]"
    by (simp add: librosa_load_def example_single_def)
  define pattern where "pattern = standard_normal (next_normal toy_lib)
     (default_rng toy_lib (unat (sha256 toy_lib (encode toy_lib (''artist_1'' @ ''s3cret''))) mod 2 ^ 32))
     (length [fdiv (Fin (1 / 2)) (fabs (Fin (1 / 2)))])"
  have "length pattern = Suc 0"
    unfolding pattern_def length_standard_normal by simp
  then obtain r where r: "pattern = [r]"
    by (cases pattern) auto
  obtain q where w: "sf_write toy_lib ''out.wav''
      (mix [fdiv (Fin (1 / 2)) (fabs (Fin (1 / 2)))] pattern) = Inr [q]"
    unfolding r toy_sf_write_wav by (simp add: mix_def)
  have l2: "librosa_load (example_single(''out.wav'' \<mapsto> Audio [q])) ''out.wav'' = Inr [q]"
    by (simp add: librosa_load_def)
  have "embed_then_detect toy_lib example_single ''in.wav'' ''out.wav'' ''artist_1'' ''s3cret''
       = Inr (False, Fin 0)"
    unfolding embed_then_detect_eq [OF l normalize_single w [unfolded pattern_def]]
    by (rule detect_watermark_single [OF l2])
  then show ?thesis
    by (simp add: example_single_def)
qed

text \<open>
  C3, amended: when the writer succeeds and the file it has written decodes to at least
  one sample, detection after embedding returns \<open>verified = (correlation > 0.001)\<close>
  together with the correlation, where the correlation is the coefficient between the
  normalised samples of the written file and the pattern regenerated from the same
  seed at the length of that file, NaN read as \<open>0.0\<close>. The verdict is true exactly
  when this correlation exceeds the threshold, which the code does not guarantee: the
  witness is a constant signal whose written samples are clipped to one value.
\<close>

theorem roundtrip_verdict:
  assumes "librosa_load files input_path = Inr y0"
    and "normalize y0 = Inr y"
    and "sf_write L output_path (mix y (standard_normal (next_normal L)
            (default_rng L (unat (sha256 L (encode L (i @ k))) mod 2 ^ 32)) (length y0)))
         = Inr written"
    and "written \<noteq> []"
  shows "\<exists>ym pattern corr0 corr.
      normalize written = Inr ym
    \<and> pattern = standard_normal (next_normal L)
          (default_rng L (unat (sha256 L (encode L (i @ k))) mod 2 ^ 32)) (length written)
    \<and> corr0 = corrcoef01 ym pattern
    \<and> corr = (if isnan corr0 then Fin 0 else corr0)
    \<and> embed_then_detect L files input_path output_path i k =
        Inr (fgt corr (Fin (1 / 1000)), corr)"
proof -
  have len: "length y = length y0"
    using assms(2) by (rule length_normalize)
  obtain ym where ym: "normalize written = Inr ym"
    using normalize_nonempty [OF assms(4)] by blast
  have lym: "length ym = length written"
    using ym by (rule length_normalize)
  have l: "librosa_load (files(output_path \<mapsto> Audio written)) output_path = Inr written"
    by (simp add: librosa_load_def)
  have w: "sf_write L output_path (mix y (standard_normal (next_normal L)
            (default_rng L (unat (sha256 L (encode L (i @ k))) mod 2 ^ 32)) (length y)))
         = Inr written"
    using assms(3) by (simp add: len)
  show ?thesis
    unfolding embed_then_detect_eq [OF assms(1,2) w] detect_watermark_eq [OF l ym]
    using ym by (simp add: Let_def threshold_def lym)
qed

lemma librosa_load_example_dc:
  "librosa_load example_dc ''in.wav'' = Inr [Fin (1 / 2), Fin (1 / 2)]"
  by (simp add: librosa_load_def example_dc_def)

lemma normalize_example_dc: "normalize [Fin (1 / 2), Fin (1 / 2)] = Inr [Fin 1, Fin 1]"
  by (simp add: normalize_def np_max_def fmax_def)

lemma toy_written_dc:
  "sf_write toy_lib ''out.wav'' (mix [Fin 1, Fin 1] (standard_normal (next_normal toy_lib)
      (default_rng toy_lib (unat (sha256 toy_lib (encode toy_lib (''artist_1'' @ ''s3cret''))) mod 2 ^ 32))
      (length [Fin (1 / 2), Fin (1 / 2)])))
   = Inr [Fin (32767 / 32768), Fin (32767 / 32768)]"
  by (simp add: toy_lib_def mix_def alpha_def toy_pcm_def)

lemma fmul_zero_left: "fmul (Fin 0) c = Fin 0 \<or> fmul (Fin 0) c = NaN"
  by (cases c) simp_all

lemma corrcoef01_constant: "corrcoef01 [Fin 1, Fin 1] [p, q] = NaN"
proof -
  have c: "centered [Fin 1, Fin 1] = [Fin 0, Fin 0]"
    by (simp add: centered_def mean_def fsum_def fsub_def)
  have xx: "cov_entry (Suc (Suc 0)) [Fin 1, Fin 1] [Fin 1, Fin 1] = Fin 0"
    by (simp add: cov_entry_def c fsum_def)
  obtain c1 c2 where pq: "centered [p, q] = [c1, c2]"
    by (simp add: centered_def)
  have "cov_entry (Suc (Suc 0)) [Fin 1, Fin 1] [p, q] = Fin 0
      \<or> cov_entry (Suc (Suc 0)) [Fin 1, Fin 1] [p, q] = NaN"
    using fmul_zero_left [of c1] fmul_zero_left [of c2]
    by (auto simp: cov_entry_def c pq fsum_def)
  then have "fdiv (cov_entry (Suc (Suc 0)) [Fin 1, Fin 1] [p, q])
      (fsqrt (cov_entry (Suc (Suc 0)) [Fin 1, Fin 1] [Fin 1, Fin 1])) = NaN"
    unfolding xx by auto
  then show ?thesis
    by (simp add: corrcoef01_def fclip_def)
qed

theorem roundtrip_verdict_witness:
  "librosa_load example_dc ''in.wav'' = Inr [Fin (1 / 2), Fin (1 / 2)]
   \<and> normalize [Fin (1 / 2), Fin (1 / 2)] = Inr [Fin 1, Fin 1]
   \<and> sf_write toy_lib ''out.wav'' (mix [Fin 1, Fin 1] (standard_normal (next_normal toy_lib)
        (default_rng toy_lib (unat (sha256 toy_lib (encode toy_lib (''artist_1'' @ ''s3cret''))) mod 2 ^ 32))
        (length [Fin (1 / 2), Fin (1 / 2)])))
       = Inr [Fin (32767 / 32768), Fin (32767 / 32768)]
   \<and> [Fin (32767 / 32768), Fin (32767 / 32768)] \<noteq> []
   \<and> embed_then_detect toy_lib example_dc ''in.wav'' ''out.wav'' ''artist_1'' ''s3cret''
       = Inr (False, Fin 0)"
proof -
  have h4: "[Fin (32767 / 32768), Fin (32767 / 32768)] \<noteq> []"
    by simp
  obtain ym pattern corr0 corr where
    ym: "normalize [Fin (32767 / 32768), Fin (32767 / 32768)] = Inr ym"
    and p: "pattern = standard_normal (next_normal toy_lib)
          (default_rng toy_lib (unat (sha256 toy_lib (encode toy_lib (''artist_1'' @ ''s3cret''))) mod 2 ^ 32))
          (length [Fin (32767 / 32768), Fin (32767 / 32768)])"
    and c0: "corr0 = corrcoef01 ym pattern"
    and cr: "corr = (if isnan corr0 then Fin 0 else corr0)"
    and r: "embed_then_detect toy_lib example_dc ''in.wav'' ''out.wav'' ''artist_1'' ''s3cret'' =
        Inr (fgt corr (Fin (1 / 1000)), corr)"
    using roundtrip_verdict [OF librosa_load_example_dc normalize_example_dc toy_written_dc h4]
    by blast
  have ym': "ym = [Fin 1, Fin 1]"
    using ym by (simp add: normalize_def np_max_def fmax_def)
  have "length pattern = Suc (Suc 0)"
    unfolding p length_standard_normal by simp
  then obtain a b where p': "pattern = [a, b]"
    by (cases pattern; cases "tl pattern") auto
  have "corr0 = NaN"
    unfolding c0 ym' p' by (rule corrcoef01_constant)
  then have "corr = Fin 0"
    using cr by simp
  with r show ?thesis
    using librosa_load_example_dc normalize_example_dc toy_written_dc by simp
qed

subsection \<open>Signed detection: the seed text with a valid signature\<close>

lemma seed_material_valid:
  assumes "check_metadata L files mp i pk = (m, True, sc)"
    and "seed_material m True i = Inr material"
  shows "\<exists>kvs. files mp = Some (Json (JObj kvs))
     \<and> (map_of kvs ''signature'' = None \<and> material = i @ ''fallback''
        \<or> (\<exists>s. map_of kvs ''signature'' = Some (JStr s) \<and> material = i @ s))"
proof -
  obtain kvs sg where f: "files mp = Some (Json (JObj kvs))" and m: "m = Some (JObj kvs)"
    and sg: "sg = (case map_of kvs ''signature'' of None \<Rightarrow> JStr [] | Some v \<Rightarrow> v)"
    and v: "verify_watermark_signature L i
              (case map_of kvs ''audio_hash'' of None \<Rightarrow> JStr [] | Some v \<Rightarrow> v) sg pk = Inr True"
    using check_metadata_valid [OF assms(1)] by auto
  obtain str where str: "sg = JStr str"
    using verify_watermark_signature_str [OF v] by blast
  show ?thesis
  proof (cases "map_of kvs ''signature''")
    case None
    with assms(2) m f show ?thesis
      by (simp add: seed_material_def)
  next
    case (Some v)
    with sg str have "v = JStr str"
      by simp
    with Some assms(2) m f show ?thesis
      by (simp add: seed_material_def)
  qed
qed

text \<open>
  C8. For every input on which signed detection runs (the candidate file decodes to at
  least one sample), the result is \<open>verified = signatureValid AND correlation > 0.001\<close>
  and \<open>score = (correlation + (1.0 if signatureValid else 0.0)) / 2.0\<close>, where the
  correlation is the coefficient with NaN replaced by \<open>0.0\<close>. The text hashed into the
  seed is \<open>identity + "fallback"\<close> when \<open>signatureValid\<close> is false; when it is true, the
  record is a JSON object and the text is \<open>identity + record.signature\<close> (the fallback
  only if the record has no \<open>signature\<close> item).
\<close>

theorem signed_verdict_and_score:
  assumes "librosa_load files p = Inr y0" and "y0 \<noteq> []"
  shows "\<exists>y m sv sc material corr0 corr.
      normalize y0 = Inr y
    \<and> check_metadata L files (py_replace ''.wav'' ''_metadata.json'' p) i pk = (m, sv, sc)
    \<and> seed_material m sv i = Inr material
    \<and> (\<not> sv \<longrightarrow> material = i @ ''fallback'')
    \<and> (sv \<longrightarrow>
         (\<exists>kvs. files (py_replace ''.wav'' ''_metadata.json'' p) = Some (Json (JObj kvs))
            \<and> (map_of kvs ''signature'' = None \<and> material = i @ ''fallback''
               \<or> (\<exists>s. map_of kvs ''signature'' = Some (JStr s) \<and> material = i @ s))))
    \<and> corr0 = corrcoef01 y (standard_normal (next_normal L)
          (default_rng L (unat (sha256 L (encode L material)) mod 2 ^ 32)) (length y))
    \<and> corr = (if isnan corr0 then Fin 0 else corr0)
    \<and> detect_watermark_with_signature L files p i pk =
        Inr (sv \<and> fgt corr (Fin (1 / 1000)),
             fdiv (fadd corr (if sv then Fin 1 else Fin 0)) (Fin 2),
             sv)"
proof -
  obtain y where y: "normalize y0 = Inr y"
    using normalize_nonempty [OF assms(2)] by blast
  obtain m sv sc where c:
    "check_metadata L files (py_replace ''.wav'' ''_metadata.json'' p) i pk = (m, sv, sc)"
    by (cases "check_metadata L files (py_replace ''.wav'' ''_metadata.json'' p) i pk") auto
  obtain mat where mat: "seed_material m sv i = Inr mat"
    using seed_material_ok [OF c] by blast
  have fb: "\<not> sv \<longrightarrow> mat = i @ ''fallback''"
    using mat by (simp add: seed_material_def split: if_splits)
  have va: "sv \<longrightarrow>
         (\<exists>kvs. files (py_replace ''.wav'' ''_metadata.json'' p) = Some (Json (JObj kvs))
            \<and> (map_of kvs ''signature'' = None \<and> mat = i @ ''fallback''
               \<or> (\<exists>s. map_of kvs ''signature'' = Some (JStr s) \<and> mat = i @ s)))"
    using seed_material_valid [of L files _ i pk m sc mat] c mat by auto
  have sc: "sc = (if sv then Fin 1 else Fin 0)"
    using c by (rule check_metadata_score)
  have d: "detect_watermark_with_signature L files p i pk =
        Inr (sv \<and> fgt (if isnan (corrcoef01 y (standard_normal (next_normal L)
                (default_rng L (unat (sha256 L (encode L mat)) mod 2 ^ 32)) (length y)))
              then Fin 0
              else corrcoef01 y (standard_normal (next_normal L)
                (default_rng L (unat (sha256 L (encode L mat)) mod 2 ^ 32)) (length y)))
              (Fin (1 / 1000)),
             fdiv (fadd (if isnan (corrcoef01 y (standard_normal (next_normal L)
                (default_rng L (unat (sha256 L (encode L mat)) mod 2 ^ 32)) (length y)))
              then Fin 0
              else corrcoef01 y (standard_normal (next_normal L)
                (default_rng L (unat (sha256 L (encode L mat)) mod 2 ^ 32)) (length y)))
               (if sv then Fin 1 else Fin 0)) (Fin 2),
             sv)"
    using detect_signed_eq [OF assms(1) y c mat] sc
    by (simp add: Let_def threshold_def)
  show ?thesis
    using y c mat fb va d by blast
qed

lemma corrcoef01_example_neg:
  "corrcoef01 [Fin (- 1), Fin 0, Fin 1] [Fin 1, Fin 2, Fin 0] = Fin (- 1 / 2)"
  by (simp add: corrcoef01_def cov_entry_def centered_def mean_def fsum_def fsub_def
      fclip_def Let_def signed_inf_def)

lemma corrcoef01_example_0:
  "corrcoef01 [Fin (- 1), Fin 0, Fin 1] [Fin 0, Fin 1, Fin 2] = Fin 1"
  using corrcoef01_example [of 0] by simp

lemma toy2_pattern_signed:
  "standard_normal (next_normal toy_lib2)
     (default_rng toy_lib2 (unat (sha256 toy_lib2 (encode toy_lib2 (''al'' @ ''al:h1''))) mod 2 ^ 32))
     (length [Fin (- 1), Fin 0, Fin 1])
   = [Fin 0, Fin 1, Fin 2]"
  by (simp add: toy_lib2_def toy_lib_def)

lemma toy2_pattern_fallback:
  "standard_normal (next_normal toy_lib2)
     (default_rng toy_lib2 (unat (sha256 toy_lib2 (encode toy_lib2 (''al'' @ ''fallback''))) mod 2 ^ 32))
     (length [Fin (- 1), Fin 0, Fin 1])
   = [Fin 1, Fin 2, Fin 0]"
  by (simp add: toy_lib2_def toy_lib_def)

lemma check_metadata_toy2_signed:
  "check_metadata toy_lib2 example_signed (py_replace ''.wav'' ''_metadata.json'' ''a.wav'')
     ''al'' ''PEM'' = (Some (example_record ''al:h1''), True, Fin 1)"
  unfolding metadata_path_example
  by (simp add: check_metadata_def example_signed_def example_audio_def example_record_def
      json_load_def jget_def verify_watermark_signature_def verify_signature_def
      verify_signature_try_def toy_lib2_def toy_lib_def format_val_def)

lemma check_metadata_toy2_forged:
  "check_metadata toy_lib2 example_forged (py_replace ''.wav'' ''_metadata.json'' ''a.wav'')
     ''al'' ''PEM'' = (Some (example_record ''xx:h1''), False, Fin 0)"
  unfolding metadata_path_example
  by (simp add: check_metadata_def example_forged_def example_audio_def example_record_def
      json_load_def jget_def verify_watermark_signature_def verify_signature_def
      verify_signature_try_def toy_lib2_def toy_lib_def format_val_def)

theorem signed_verdict_and_score_witness:
  "librosa_load example_forged ''a.wav'' = Inr [Fin (- 1), Fin 0, Fin 1]
   \<and> librosa_load example_signed ''a.wav'' = Inr [Fin (- 1), Fin 0, Fin 1]
   \<and> [Fin (- 1), Fin 0, Fin 1] \<noteq> []
   \<and> check_metadata toy_lib2 example_forged (py_replace ''.wav'' ''_metadata.json'' ''a.wav'')
        ''al'' ''PEM'' = (Some (example_record ''xx:h1''), False, Fin 0)
   \<and> seed_material (Some (example_record ''xx:h1'')) False ''al'' = Inr (''al'' @ ''fallback'')
   \<and> detect_watermark_with_signature toy_lib2 example_forged ''a.wav'' ''al'' ''PEM''
       = Inr (False \<and> fgt (Fin (- 1 / 2)) (Fin (1 / 1000)),
              fdiv (fadd (Fin (- 1 / 2)) (Fin 0)) (Fin 2), False)
   \<and> check_metadata toy_lib2 example_signed (py_replace ''.wav'' ''_metadata.json'' ''a.wav'')
        ''al'' ''PEM'' = (Some (example_record ''al:h1''), True, Fin 1)
   \<and> seed_material (Some (example_record ''al:h1'')) True ''al'' = Inr (''al'' @ ''al:h1'')
   \<and> detect_watermark_with_signature toy_lib2 example_signed ''a.wav'' ''al'' ''PEM''
       = Inr (True \<and> fgt (Fin 1) (Fin (1 / 1000)), fdiv (fadd (Fin 1) (Fin 1)) (Fin 2), True)"
proof -
  have h2: "[Fin (- 1), Fin 0, Fin 1] \<noteq> []"
    by simp
  note c = check_metadata_toy2_forged
  note c' = check_metadata_toy2_signed
  have m': "seed_material (Some (example_record ''al:h1'')) True ''al'' = Inr (''al'' @ ''al:h1'')"
    by (simp add: seed_material_def example_record_def)
  have forged: "detect_watermark_with_signature toy_lib2 example_forged ''a.wav'' ''al'' ''PEM''
       = Inr (False \<and> fgt (Fin (- 1 / 2)) (Fin (1 / 1000)),
              fdiv (fadd (Fin (- 1 / 2)) (Fin 0)) (Fin 2), False)"
  proof -
    obtain y m sv sc material corr0 corr where
      y: "normalize [Fin (- 1), Fin 0, Fin 1] = Inr y"
      and cm: "check_metadata toy_lib2 example_forged
                 (py_replace ''.wav'' ''_metadata.json'' ''a.wav'') ''al'' ''PEM'' = (m, sv, sc)"
      and fb: "\<not> sv \<longrightarrow> material = ''al'' @ ''fallback''"
      and c0: "corr0 = corrcoef01 y (standard_normal (next_normal toy_lib2)
                 (default_rng toy_lib2 (unat (sha256 toy_lib2 (encode toy_lib2 material)) mod 2 ^ 32))
                 (length y))"
      and cr: "corr = (if isnan corr0 then Fin 0 else corr0)"
      and r: "detect_watermark_with_signature toy_lib2 example_forged ''a.wav'' ''al'' ''PEM'' =
          Inr (sv \<and> fgt corr (Fin (1 / 1000)),
               fdiv (fadd corr (if sv then Fin 1 else Fin 0)) (Fin 2), sv)"
      using signed_verdict_and_score [OF librosa_load_example_forged h2, of toy_lib2 "''al''" "''PEM''"]
      by blast
    have y': "y = [Fin (- 1), Fin 0, Fin 1]"
      using y normalize_example by simp
    have sv: "\<not> sv"
      using cm c by simp
    have mat: "material = ''al'' @ ''fallback''"
      using fb sv by simp
    have "corr0 = Fin (- 1 / 2)"
      unfolding c0 y' mat toy2_pattern_fallback by (rule corrcoef01_example_neg)
    then have "corr = Fin (- 1 / 2)"
      using cr by simp
    with r sv show ?thesis
      by simp
  qed
  have signed: "detect_watermark_with_signature toy_lib2 example_signed ''a.wav'' ''al'' ''PEM''
       = Inr (True \<and> fgt (Fin 1) (Fin (1 / 1000)), fdiv (fadd (Fin 1) (Fin 1)) (Fin 2), True)"
  proof -
    obtain y m sv sc material corr0 corr where
      y: "normalize [Fin (- 1), Fin 0, Fin 1] = Inr y"
      and cm: "check_metadata toy_lib2 example_signed
                 (py_replace ''.wav'' ''_metadata.json'' ''a.wav'') ''al'' ''PEM'' = (m, sv, sc)"
      and va: "sv \<longrightarrow>
         (\<exists>kvs. example_signed (py_replace ''.wav'' ''_metadata.json'' ''a.wav'')
              = Some (Json (JObj kvs))
            \<and> (map_of kvs ''signature'' = None \<and> material = ''al'' @ ''fallback''
               \<or> (\<exists>s. map_of kvs ''signature'' = Some (JStr s) \<and> material = ''al'' @ s)))"
      and c0: "corr0 = corrcoef01 y (standard_normal (next_normal toy_lib2)
                 (default_rng toy_lib2 (unat (sha256 toy_lib2 (encode toy_lib2 material)) mod 2 ^ 32))
                 (length y))"
      and cr: "corr = (if isnan corr0 then Fin 0 else corr0)"
      and r: "detect_watermark_with_signature toy_lib2 example_signed ''a.wav'' ''al'' ''PEM'' =
          Inr (sv \<and> fgt corr (Fin (1 / 1000)),
               fdiv (fadd corr (if sv then Fin 1 else Fin 0)) (Fin 2), sv)"
      using signed_verdict_and_score [OF librosa_load_example_signed h2, of toy_lib2 "''al''" "''PEM''"]
      by blast
    have y': "y = [Fin (- 1), Fin 0, Fin 1]"
      using y normalize_example by simp
    have sv: "sv"
      using cm c' by simp
    have rec: "example_signed (py_replace ''.wav'' ''_metadata.json'' ''a.wav'')
        = Some (Json (JObj [(''artist_id'', JStr ''al''), (''signature'', JStr ''al:h1''),
                            (''audio_hash'', JStr ''h1''),
                            (''watermark_type'', JStr ''cryptographic'')]))"
      by (simp add: metadata_path_example example_signed_def example_record_def)
    have mat: "material = ''al'' @ ''al:h1''"
      using va sv unfolding rec by auto
    have "corr0 = Fin 1"
      unfolding c0 y' mat toy2_pattern_signed by (rule corrcoef01_example_0)
    then have "corr = Fin 1"
      using cr by simp
    with r sv show ?thesis
      by simp
  qed
  show ?thesis
    using librosa_load_example_forged librosa_load_example_signed h2 c c' m' forged signed
    by (simp add: seed_material_fallback)
qed

subsection \<open>Signed embedding\<close>

text \<open>
  C9. Signed embedding divides the signal by its peak; takes the SHA-256 hex digest of
  the bytes of the normalised samples as the fingerprint; signs \<open>identity:fingerprint\<close>
  with the private key; seeds the pattern with the hash of \<open>identity + signature\<close>;
  mixes it in at gain \<open>0.001\<close> and writes the result; and writes a record of exactly
  four items: the identity, the signature, the fingerprint and the kind
  \<open>cryptographic\<close>. Each step can raise, in this order: key parsing, signing, the
  audio writer, opening the record.
\<close>

theorem signed_embedding_steps:
  assumes "librosa_load files input_path = Inr y0" and "y0 \<noteq> []"
  shows "\<exists>peak y fingerprint.
      np_max (map fabs y0) = Inr peak
    \<and> y = map (\<lambda>v. fdiv v peak) y0
    \<and> normalize y0 = Inr y
    \<and> fingerprint = hexdigest (sha256 L (tobytes L y))
    \<and> embed_watermark_with_signature L salt files input_path output_path i sk =
       (case load_pem_private_key L (encode L sk) of
          Inl e \<Rightarrow> Inl e
        | Inr key \<Rightarrow>
       (case pss_sign L key (encode L (i @ '':'' @ fingerprint)) salt of
          Inl e \<Rightarrow> Inl e
        | Inr raw \<Rightarrow>
       (case sf_write L output_path
               (map2 (\<lambda>v p. fadd v (fmul (Fin (1 / 1000)) p)) y
                  (standard_normal (next_normal L)
                     (default_rng L
                        (unat (sha256 L (encode L (i @ b64encode L raw))) mod 2 ^ 32))
                     (length y0))) of
          Inl e \<Rightarrow> Inl e
        | Inr written \<Rightarrow>
       (case open_write L (py_replace ''.wav'' ''_metadata.json'' output_path) of
          Inl e \<Rightarrow> Inl e
        | Inr u \<Rightarrow>
            Inr ((files(output_path \<mapsto> Audio written))
                   (py_replace ''.wav'' ''_metadata.json'' output_path \<mapsto>
                     Json (JObj [(''artist_id'', JStr i),
                                 (''signature'', JStr (b64encode L raw)),
                                 (''audio_hash'', JStr fingerprint),
                                 (''watermark_type'', JStr ''cryptographic'')])),
                 output_path)))))"
proof -
  obtain x rest where y0: "y0 = x # rest"
    using assms(2) by (cases y0) auto
  define peak where "peak = foldl fmax (fabs x) (map fabs rest)"
  define y where "y = map (\<lambda>v. fdiv v peak) y0"
  have pk: "np_max (map fabs y0) = Inr peak"
    by (simp add: np_max_def y0 peak_def)
  have n: "normalize y0 = Inr y"
    by (simp add: normalize_def pk y_def)
  have len: "length y = length y0"
    by (simp add: y_def)
  have "embed_watermark_with_signature L salt files input_path output_path i sk =
       (case load_pem_private_key L (encode L sk) of
          Inl e \<Rightarrow> Inl e
        | Inr key \<Rightarrow>
       (case pss_sign L key (encode L (i @ '':'' @ hexdigest (sha256 L (tobytes L y)))) salt of
          Inl e \<Rightarrow> Inl e
        | Inr raw \<Rightarrow>
       (case sf_write L output_path
               (map2 (\<lambda>v p. fadd v (fmul (Fin (1 / 1000)) p)) y
                  (standard_normal (next_normal L)
                     (default_rng L
                        (unat (sha256 L (encode L (i @ b64encode L raw))) mod 2 ^ 32))
                     (length y0))) of
          Inl e \<Rightarrow> Inl e
        | Inr written \<Rightarrow>
       (case open_write L (py_replace ''.wav'' ''_metadata.json'' output_path) of
          Inl e \<Rightarrow> Inl e
        | Inr u \<Rightarrow>
            Inr ((files(output_path \<mapsto> Audio written))
                   (py_replace ''.wav'' ''_metadata.json'' output_path \<mapsto>
                     Json (JObj [(''artist_id'', JStr i),
                                 (''signature'', JStr (b64encode L raw)),
                                 (''audio_hash'', JStr (hexdigest (sha256 L (tobytes L y)))),
                                 (''watermark_type'', JStr ''cryptographic'')])),
                 output_path)))))"
    unfolding embed_signed_eq [OF assms(1) n] len
    by (simp add: create_watermark_signature_def sign_watermark_def mix_def alpha_def Let_def
        split: sum.splits)
  with pk n show ?thesis
    unfolding y_def by blast
qed

lemma toy2_fingerprint:
  "hexdigest (sha256 toy_lib2 (tobytes toy_lib2 [Fin (- 1), Fin 0, Fin 1]))
     = replicate 63 CHR ''0'' @ ''3''"
proof -
  have s: "sha256 toy_lib2 (tobytes toy_lib2 [Fin (- 1), Fin 0, Fin 1]) = 3"
    by (simp add: toy_lib2_def toy_lib_def toy_byte_def)
  have u: "unat (3 :: 256 word) = 3"
    by simp
  have "hex_digits 64 3 = hex_digits (Suc 63) 3"
    by simp
  also have "\<dots> = hex_digits 63 (3 div 16) @ [hexchar (3 mod 16)]"
    by (simp only: hex_digits.simps)
  also have "\<dots> = replicate 63 CHR ''0'' @ ''3''"
    by (simp add: hex_digits_zero hexchar_def)
  finally show ?thesis
    unfolding hexdigest_def s u .
qed

lemma toy2_sign:
  "pss_sign toy_lib2 () (encode toy_lib2 m) salt = Inr (encode toy_lib2 m)"
  "b64encode toy_lib2 (encode toy_lib2 m) = m"
  "load_pem_private_key toy_lib2 (encode toy_lib2 ''KEY'') = Inr ()"
  using toy_text_roundtrip [of m]
  by (simp_all add: toy_lib2_def toy_lib_def)

lemma toy2_pattern_embed:
  "standard_normal (next_normal toy_lib2)
     (default_rng toy_lib2
        (unat (sha256 toy_lib2 (encode toy_lib2 (''al'' @ ''al:'' @ replicate 63 CHR ''0'' @ ''3'')))
           mod 2 ^ 32))
     (length [Fin (- 1 / 2), Fin 0, Fin (1 / 2)])
   = [Fin 0, Fin 1, Fin 2]"
  by (simp add: toy_lib2_def toy_lib_def sum_list_replicate)

lemma toy2_written:
  "sf_write toy_lib2 ''b.wav''
     (map2 (\<lambda>v p. fadd v (fmul (Fin (1 / 1000)) p)) [Fin (- 1), Fin 0, Fin 1]
        [Fin 0, Fin 1, Fin 2])
   = Inr [Fin (- 1), Fin (1 / 1000), Fin (32767 / 32768)]"
  by (simp add: toy_lib2_def toy_lib_def toy_pcm_def)

lemma toy2_open: "open_write toy_lib2 ''b_metadata.json'' = Inr ()"
  by (simp add: toy_lib2_def toy_lib_def)

theorem signed_embedding_steps_witness:
  "librosa_load example_quiet ''in.wav'' = Inr [Fin (- 1 / 2), Fin 0, Fin (1 / 2)]
   \<and> [Fin (- 1 / 2), Fin 0, Fin (1 / 2)] \<noteq> []
   \<and> normalize [Fin (- 1 / 2), Fin 0, Fin (1 / 2)] = Inr [Fin (- 1), Fin 0, Fin 1]
   \<and> embed_watermark_with_signature toy_lib2 [] example_quiet ''in.wav'' ''b.wav'' ''al'' ''KEY''
       = Inr (example_quiet
               (''b.wav'' \<mapsto> Audio [Fin (- 1), Fin (1 / 1000), Fin (32767 / 32768)],
                ''b_metadata.json'' \<mapsto>
                  Json (JObj [(''artist_id'', JStr ''al''),
                              (''signature'', JStr (''al:'' @ replicate 63 CHR ''0'' @ ''3'')),
                              (''audio_hash'', JStr (replicate 63 CHR ''0'' @ ''3'')),
                              (''watermark_type'', JStr ''cryptographic'')])),
              ''b.wav'')"
proof -
  have h2: "[Fin (- 1 / 2), Fin 0, Fin (1 / 2)] \<noteq> []"
    by simp
  have mp: "py_replace ''.wav'' ''_metadata.json'' ''b.wav'' = ''b_metadata.json''"
    by (simp add: py_replace.simps)
  obtain peak y fingerprint where
    n: "normalize [Fin (- 1 / 2), Fin 0, Fin (1 / 2)] = Inr y"
    and fp: "fingerprint = hexdigest (sha256 toy_lib2 (tobytes toy_lib2 y))"
    and r: "embed_watermark_with_signature toy_lib2 [] example_quiet ''in.wav'' ''b.wav'' ''al'' ''KEY'' =
       (case load_pem_private_key toy_lib2 (encode toy_lib2 ''KEY'') of
          Inl e \<Rightarrow> Inl e
        | Inr key \<Rightarrow>
       (case pss_sign toy_lib2 key (encode toy_lib2 (''al'' @ '':'' @ fingerprint)) [] of
          Inl e \<Rightarrow> Inl e
        | Inr raw \<Rightarrow>
       (case sf_write toy_lib2 ''b.wav''
               (map2 (\<lambda>v p. fadd v (fmul (Fin (1 / 1000)) p)) y
                  (standard_normal (next_normal toy_lib2)
                     (default_rng toy_lib2
                        (unat (sha256 toy_lib2 (encode toy_lib2 (''al'' @ b64encode toy_lib2 raw)))
                           mod 2 ^ 32))
                     (length [Fin (- 1 / 2), Fin 0, Fin (1 / 2)]))) of
          Inl e \<Rightarrow> Inl e
        | Inr written \<Rightarrow>
       (case open_write toy_lib2 (py_replace ''.wav'' ''_metadata.json'' ''b.wav'') of
          Inl e \<Rightarrow> Inl e
        | Inr u \<Rightarrow>
            Inr ((example_quiet(''b.wav'' \<mapsto> Audio written))
                   (py_replace ''.wav'' ''_metadata.json'' ''b.wav'' \<mapsto>
                     Json (JObj [(''artist_id'', JStr ''al''),
                                 (''signature'', JStr (b64encode toy_lib2 raw)),
                                 (''audio_hash'', JStr fingerprint),
                                 (''watermark_type'', JStr ''cryptographic'')])),
                 ''b.wav'')))))"
    using signed_embedding_steps [OF librosa_load_example_quiet h2,
        of toy_lib2 "[]" "''b.wav''" "''al''" "''KEY''"]
    by blast
  have y': "y = [Fin (- 1), Fin 0, Fin 1]"
    using n normalize_example_quiet by simp
  have fp': "fingerprint = replicate 63 CHR ''0'' @ ''3''"
    unfolding fp y' by (rule toy2_fingerprint)
  have sg: "''al'' @ '':'' @ replicate 63 CHR ''0'' @ ''3'' = ''al:'' @ replicate 63 CHR ''0'' @ ''3''"
    by simp
  have "embed_watermark_with_signature toy_lib2 [] example_quiet ''in.wav'' ''b.wav'' ''al'' ''KEY''
       = Inr (example_quiet
               (''b.wav'' \<mapsto> Audio [Fin (- 1), Fin (1 / 1000), Fin (32767 / 32768)],
                ''b_metadata.json'' \<mapsto>
                  Json (JObj [(''artist_id'', JStr ''al''),
                              (''signature'', JStr (''al:'' @ replicate 63 CHR ''0'' @ ''3'')),
                              (''audio_hash'', JStr (replicate 63 CHR ''0'' @ ''3'')),
                              (''watermark_type'', JStr ''cryptographic'')])),
              ''b.wav'')"
    unfolding r y' fp' mp toy2_sign sg
    by (simp only: toy2_sign toy2_pattern_embed toy2_written toy2_open sum.case old.unit.case)
  then show ?thesis
    using librosa_load_example_quiet h2 normalize_example_quiet by simp
qed

end
